theory Spec2Isabelle
  imports Main "HOL-Library.Word"
begin

section \<open>Shared values\<close>

text \<open>
  Go's \<open>int64\<close> and \<open>uint64\<close> are 64-bit words: \<open>+\<close> wraps and \<open>==\<close> compares the
  bits, which is what the deployment counters of the vendor are compared with.
\<close>

type_synonym int64 = "64 word"
type_synonym uint64 = "64 word"
type_synonym int32 = "32 word"

text \<open>
  \<open>fmt.Sprintf("%d", n)\<close>: the decimal digits, most significant first, with a minus
  sign in front of a negative number.
\<close>

definition digit_char :: "nat \<Rightarrow> char" where
  "digit_char d = char_of (of_char CHR ''0'' + d)"

fun decimal :: "nat \<Rightarrow> string" where
  "decimal n = (if 10 \<le> n then decimal (n div 10) @ [digit_char (n mod 10)]
                else [digit_char n])"

declare decimal.simps [simp del]

definition decimal_int :: "int \<Rightarrow> string" where
  "decimal_int i = (if i < 0 then CHR ''-'' # decimal (nat (- i)) else decimal (nat i))"

text \<open>An error handed back by a vendor SDK call; the engine only wraps it.\<close>

datatype sdk_error = SdkError string

section \<open>tencentcloud-cdn: the deployer\<close>

record DeployerConfig =
  SecretId :: string
  SecretKey :: string
  Domain_cfg :: string

text \<open>The part of the SSL uploader's result that \<open>Deploy\<close> reads.\<close>

record UploadResult =
  CertId :: string
  CertName :: string

text \<open>\<open>deployer.DeployResult{}\<close>: a struct without fields.\<close>

datatype DeployResult = DeployResult

record DeployCertificateInstanceRequest =
  CertificateId :: string
  ResourceType :: string
  Status :: int64
  InstanceIdList :: "string list"

text \<open>
  The vendor's answers hold pointers: \<open>None\<close> is the nil pointer. The \<open>Response\<close>
  member of an answer that came without an error is taken to be there.
\<close>

record DeployCertificateInstanceResponse =
  DeployRecordId :: "uint64 option"

record DescribeHostDeployRecordDetailResponse =
  TotalCount :: "int64 option"
  RunningTotalCount :: "int64 option"
  SuccessTotalCount :: "int64 option"
  FailedTotalCount :: "int64 option"

text \<open>
  Every \<open>return nil, err\<close> of \<open>Deploy\<close> and of its two helpers, and the run-time panic
  of dereferencing a nil pointer.
\<close>

datatype deploy_error =
    UploadFailed sdk_error
  | SdkRequestFailed string sdk_error
  | ContextErr
  | UnexpectedJobStatus
  | NilPointerDereference

text \<open>
  What \<open>Deploy\<close> does to the outside, in order: the SDK calls, the progress line it logs
  with the four counts, and the sleep between two polls (in seconds).
\<close>

datatype cdn_event =
    Upload_ev string string
  | DescribeCertDomains_ev string
  | DescribeDeployedResources_ev string
  | DeployCertificateInstance_ev DeployCertificateInstanceRequest
  | DescribeHostDeployRecordDetail_ev string
  | Waiting_ev int64 int64 int64 int64
  | Sleep_ev nat

text \<open>
  The collaborators of the deployer. The poll and the cancellation check are asked once
  per loop iteration and may answer differently each time, so they take the iteration
  number (from 0).
\<close>

record cdn_env =
  sslUpload :: "string \<Rightarrow> string \<Rightarrow> sdk_error + UploadResult"
  DescribeCertDomains :: "string \<Rightarrow> sdk_error + string option list"
  DescribeDeployedResources :: "string \<Rightarrow> sdk_error + (string option list) option list"
  DeployCertificateInstance ::
    "DeployCertificateInstanceRequest \<Rightarrow> sdk_error + DeployCertificateInstanceResponse"
  DescribeHostDeployRecordDetail ::
    "nat \<Rightarrow> string \<Rightarrow> sdk_error + DescribeHostDeployRecordDetailResponse"
  ctxDone :: "nat \<Rightarrow> bool"

text \<open>\<open>domains = append(domains, *domain)\<close> over a slice of pointers.\<close>

fun deref_all :: "string option list \<Rightarrow> deploy_error + string list" where
  "deref_all [] = Inr []"
| "deref_all (None # ps) = Inl NilPointerDereference"
| "deref_all (Some s # ps) =
     (case deref_all ps of Inl e \<Rightarrow> Inl e | Inr ss \<Rightarrow> Inr (s # ss))"

definition getDomainsByCertificateId :: "cdn_env \<Rightarrow> string \<Rightarrow> deploy_error + string list" where
  "getDomainsByCertificateId env cloudCertId =
     (case DescribeCertDomains env cloudCertId of
        Inl e \<Rightarrow> Inl (SdkRequestFailed ''cdn.DescribeCertDomains'' e)
      | Inr ds \<Rightarrow> deref_all ds)"

fun deref_resources :: "(string option list) option list \<Rightarrow> deploy_error + string list" where
  "deref_resources [] = Inr []"
| "deref_resources (None # rs) = Inl NilPointerDereference"
| "deref_resources (Some ps # rs) =
     (case deref_all ps of
        Inl e \<Rightarrow> Inl e
      | Inr ss \<Rightarrow> (case deref_resources rs of Inl e \<Rightarrow> Inl e | Inr ts \<Rightarrow> Inr (ss @ ts)))"

definition getDeployedDomainsByCertificateId ::
  "cdn_env \<Rightarrow> string \<Rightarrow> deploy_error + string list" where
  "getDeployedDomainsByCertificateId env cloudCertId =
     (case DescribeDeployedResources env cloudCertId of
        Inl e \<Rightarrow> Inl (SdkRequestFailed ''cdn.DescribeDeployedResources'' e)
      | Inr rs \<Rightarrow> deref_resources rs)"

text \<open>\<open>if p != nil { v = *p }\<close> on a variable declared with its zero value.\<close>

definition count_or_zero :: "int64 option \<Rightarrow> int64" where
  "count_or_zero p = (case p of None \<Rightarrow> 0 | Some v \<Rightarrow> v)"

text \<open>
  The \<open>for\<close> loop of \<open>Deploy\<close> from its \<open>n\<close>-th iteration on. It may run for ever, so it
  takes fuel, one unit per iteration: \<open>None\<close> is a loop that is still polling when the
  fuel is gone. \<open>Inr ()\<close> is the \<open>break\<close>.
\<close>

fun poll_loop ::
  "nat \<Rightarrow> cdn_env \<Rightarrow> uint64 option \<Rightarrow> nat \<Rightarrow> (cdn_event list \<times> (deploy_error + unit)) option"
where
  "poll_loop 0 env rid n = None"
| "poll_loop (Suc fuel) env rid n =
     (if ctxDone env n then Some ([], Inl ContextErr)
      else case rid of
        None \<Rightarrow> Some ([], Inl NilPointerDereference)
      | Some r \<Rightarrow>
          (let recId = decimal (unat r) in
           case DescribeHostDeployRecordDetail env n recId of
             Inl e \<Rightarrow>
               Some ([DescribeHostDeployRecordDetail_ev recId],
                     Inl (SdkRequestFailed ''ssl.DescribeHostDeployRecordDetail'' e))
           | Inr resp \<Rightarrow>
               (if TotalCount resp = None
                then Some ([DescribeHostDeployRecordDetail_ev recId], Inl UnexpectedJobStatus)
                else
                  (let runningCount = count_or_zero (RunningTotalCount resp);
                       succeededCount = count_or_zero (SuccessTotalCount resp);
                       failedCount = count_or_zero (FailedTotalCount resp);
                       totalCount = count_or_zero (TotalCount resp)
                   in if succeededCount + failedCount = totalCount
                      then Some ([DescribeHostDeployRecordDetail_ev recId], Inr ())
                      else
                        (case poll_loop fuel env rid (Suc n) of
                           None \<Rightarrow> None
                         | Some (tr, res) \<Rightarrow>
                             Some (DescribeHostDeployRecordDetail_ev recId
                                     # Waiting_ev runningCount succeededCount failedCount totalCount
                                     # Sleep_ev 5 # tr, res))))))"

text \<open>
  \<open>Deploy\<close> up to the loop, block by block. First the CDN instances to deploy to: the
  domains of the certificate when the configured domain starts with \<open>*.\<close>, the
  configured domain otherwise.
\<close>

definition select_instances ::
  "cdn_env \<Rightarrow> DeployerConfig \<Rightarrow> string \<Rightarrow> cdn_event list \<times> (deploy_error + string list)"
where
  "select_instances env config certId =
     (if take 2 (Domain_cfg config) = ''*.''
      then ([DescribeCertDomains_ev certId], getDomainsByCertificateId env certId)
      else ([], Inr [Domain_cfg config]))"

text \<open>Then the instances that already carry the certificate are dropped.\<close>

definition skip_deployed ::
  "cdn_env \<Rightarrow> string \<Rightarrow> string list \<Rightarrow> cdn_event list \<times> (deploy_error + string list)"
where
  "skip_deployed env certId instanceIds =
     (if instanceIds \<noteq> []
      then ([DescribeDeployedResources_ev certId],
            (case getDeployedDomainsByCertificateId env certId of
               Inl e \<Rightarrow> Inl e
             | Inr deployedDomains \<Rightarrow>
                 Inr (filter (\<lambda>i. i \<notin> set deployedDomains) instanceIds)))
      else ([], Inr instanceIds))"

text \<open>
  Then the submission; \<open>Inr None\<close> is the branch that finds nothing to deploy and
  submits nothing.
\<close>

definition submit ::
  "cdn_env \<Rightarrow> string \<Rightarrow> string list \<Rightarrow>
   cdn_event list \<times> (deploy_error + DeployCertificateInstanceResponse option)"
where
  "submit env certId instanceIds =
     (if instanceIds = [] then ([], Inr None)
      else
        (let req = \<lparr> CertificateId = certId, ResourceType = ''cdn'', Status = 1,
                     InstanceIdList = instanceIds \<rparr>
         in ([DeployCertificateInstance_ev req],
             (case DeployCertificateInstance env req of
                Inl e \<Rightarrow> Inl (SdkRequestFailed ''ssl.DeployCertificateInstance'' e)
              | Inr resp \<Rightarrow> Inr (Some resp)))))"

definition submit_phase ::
  "cdn_env \<Rightarrow> DeployerConfig \<Rightarrow> string \<Rightarrow> string \<Rightarrow>
   cdn_event list \<times> (deploy_error + DeployCertificateInstanceResponse option)"
where
  "submit_phase env config certPEM privkeyPEM =
     (case sslUpload env certPEM privkeyPEM of
        Inl e \<Rightarrow> ([Upload_ev certPEM privkeyPEM], Inl (UploadFailed e))
      | Inr upres \<Rightarrow>
          (case select_instances env config (CertId upres) of
             (tr1, Inl e) \<Rightarrow> (Upload_ev certPEM privkeyPEM # tr1, Inl e)
           | (tr1, Inr instanceIds) \<Rightarrow>
               (case skip_deployed env (CertId upres) instanceIds of
                  (tr2, Inl e) \<Rightarrow> (Upload_ev certPEM privkeyPEM # tr1 @ tr2, Inl e)
                | (tr2, Inr ids) \<Rightarrow>
                    (case submit env (CertId upres) ids of
                       (tr3, res) \<Rightarrow> (Upload_ev certPEM privkeyPEM # tr1 @ tr2 @ tr3, res)))))"

text \<open>
  \<open>Deploy\<close>: after the loop's \<open>break\<close>, and when nothing was submitted, the one
  statement left is \<open>return &deployer.DeployResult{}, nil\<close>.
\<close>

definition Deploy ::
  "nat \<Rightarrow> cdn_env \<Rightarrow> DeployerConfig \<Rightarrow> string \<Rightarrow> string \<Rightarrow>
   (cdn_event list \<times> (deploy_error + DeployResult)) option"
where
  "Deploy fuel env config certPEM privkeyPEM =
     (case submit_phase env config certPEM privkeyPEM of
        (tr, Inl e) \<Rightarrow> Some (tr, Inl e)
      | (tr, Inr None) \<Rightarrow> Some (tr, Inr DeployResult)
      | (tr, Inr (Some resp)) \<Rightarrow>
          (case poll_loop fuel env (DeployRecordId resp) 0 of
             None \<Rightarrow> None
           | Some (tr', Inl e) \<Rightarrow> Some (tr @ tr', Inl e)
           | Some (tr', Inr u) \<Rightarrow> Some (tr @ tr', Inr DeployResult)))"

section \<open>certapply: the ACME client\<close>

text \<open>
  A \<open>time.Time\<close> as the instant it denotes: seconds since the Unix epoch and the
  nanoseconds within the second. \<open>time.Unix(s, 0)\<close> is the whole second \<open>s\<close>, and
  \<open>Equal\<close> compares instants, so it is the equality of these values.
\<close>

record Time =
  sec :: int
  nsec :: nat

definition time_Unix :: "int \<Rightarrow> nat \<Rightarrow> Time" where
  "time_Unix s n = \<lparr> sec = s, nsec = n \<rparr>"

text \<open>
  \<open>map[string]any\<close> is handed through to the provider factory and never read here.
\<close>

type_synonym config_map = "(string \<times> string) list"

record ObtainCertificateRequest =
  Domains :: "string list"
  KeyType :: string
  ValidityTo :: Time
  ChallengeType :: string
  Provider :: string
  ProviderAccessConfig :: config_map
  ProviderExtendedConfig :: config_map
  DisableFollowCNAME :: bool
  Nameservers :: "string list"
  DnsPropagationWait :: int
  DnsPropagationTimeout :: int
  DnsTTL :: int
  HttpDelayWait :: int
  ACMEProfile :: string
  ARIReplacesAcctUrl :: string
  ARIReplacesCertId :: string

record ObtainCertificateResponse =
  CSR :: string
  FullChainCertificate :: string
  IssuerCertificate :: string
  PrivateKey :: string
  ACMEAcctUrl :: string
  ACMECertUrl :: string
  ACMECertStableUrl :: string
  ARIReplaced :: bool

text \<open>\<open>certificate.ObtainRequest\<close> and \<open>certificate.Resource\<close> of the ACME library.\<close>

record ObtainRequest =
  Domains_req :: "string list"
  Bundle :: bool
  Profile :: string
  NotAfter_req :: Time
  ReplacesCertID :: string

record Resource =
  CSR_res :: string
  Certificate_res :: string
  IssuerCertificate_res :: string
  PrivateKey_res :: string
  CertURL :: string
  CertStableURL :: string

record ProviderFactoryOptions =
  ProviderAccessConfig_opt :: config_map
  ProviderExtendedConfig_opt :: config_map
  DnsPropagationWait_opt :: int
  DnsPropagationTimeout_opt :: int
  DnsTTL_opt :: int

text \<open>
  Go errors: a plain message, the library's \<open>*acme.AlreadyReplacedError\<close>, and an error
  that wraps another one (\<open>%w\<close>). \<open>errors.As\<close> walks the chain of wrapped errors.
\<close>

datatype acme_error =
    ErrorString string
  | AlreadyReplacedError string
  | Wrapped string acme_error

fun errors_As_AlreadyReplaced :: "acme_error \<Rightarrow> bool" where
  "errors_As_AlreadyReplaced (ErrorString m) = False"
| "errors_As_AlreadyReplaced (AlreadyReplacedError m) = True"
| "errors_As_AlreadyReplaced (Wrapped m e) = errors_As_AlreadyReplaced e"

text \<open>A challenge provider built by a factory of the registry; the client only installs it.\<close>

datatype challenge_provider = ChallengeProvider string

datatype dns01_option =
    AddRecursiveNameservers "string list"
  | PropagationWait int bool
  | DisableAuthoritativeNssPropagationRequirement

datatype acme_event =
    Setenv_ev string string
  | SetDNS01Provider_ev challenge_provider "dns01_option list"
  | SetHTTP01Provider_ev challenge_provider int
  | Obtain_ev ObtainRequest
  | Warnf_ev string

text \<open>
  The client's account and collaborators. \<open>Obtain\<close> is the order-obtain operation of the
  ACME library; the CA may answer two calls differently, so it takes the number of the
  call (from 0). \<open>TrimSpace\<close> is \<open>strings.TrimSpace\<close> of Go's library, which removes
  the Unicode white space at both ends of a text; it is taken as it is, so that what is
  proved holds of the library's function.
\<close>

record acme_env =
  TrimSpace :: "string \<Rightarrow> string"
  account_ACMEAcctUrl :: string
  ACMEDns01Registries ::
    "string \<Rightarrow> acme_error + (ProviderFactoryOptions \<Rightarrow> acme_error + challenge_provider)"
  ACMEHttp01Registries ::
    "string \<Rightarrow> acme_error + (ProviderFactoryOptions \<Rightarrow> acme_error + challenge_provider)"
  Obtain :: "nat \<Rightarrow> ObtainRequest \<Rightarrow> acme_error + Resource"

text \<open>\<open>dns01.CondOption(cond, opt)\<close>: the option when the condition holds, nothing otherwise.\<close>

definition CondOption :: "bool \<Rightarrow> dns01_option \<Rightarrow> dns01_option list" where
  "CondOption c opt = (if c then [opt] else [])"

definition FormatBool :: "bool \<Rightarrow> string" where
  "FormatBool b = (if b then ''true'' else ''false'')"

text \<open>The \<open>switch request.ChallengeType\<close> of \<open>sendObtainCertificateRequest\<close>.\<close>

definition set_challenge_provider ::
  "acme_env \<Rightarrow> ObtainCertificateRequest \<Rightarrow> acme_event list \<times> (acme_error + unit)"
where
  "set_challenge_provider env request =
     (if ChallengeType request = ''dns-01'' then
        (case ACMEDns01Registries env (Provider request) of
           Inl err \<Rightarrow> ([], Inl err)
         | Inr providerFactory \<Rightarrow>
             (case providerFactory
                     \<lparr> ProviderAccessConfig_opt = ProviderAccessConfig request,
                       ProviderExtendedConfig_opt = ProviderExtendedConfig request,
                       DnsPropagationWait_opt = DnsPropagationWait request,
                       DnsPropagationTimeout_opt = DnsPropagationTimeout request,
                       DnsTTL_opt = DnsTTL request \<rparr> of
                Inl err \<Rightarrow>
                  ([], Inl (Wrapped (''failed to initialize dns-01 provider '' @ [CHR 0x27]
                                      @ Provider request @ [CHR 0x27]) err))
              | Inr provider \<Rightarrow>
                  ([SetDNS01Provider_ev provider
                      (CondOption (length (Nameservers request) > 0)
                         (AddRecursiveNameservers (Nameservers request))
                       @ CondOption (DnsPropagationWait request > 0)
                           (PropagationWait (DnsPropagationWait request) True)
                       @ CondOption (length (Nameservers request) > 0
                                     \<or> DnsPropagationWait request > 0)
                           DisableAuthoritativeNssPropagationRequirement)],
                   Inr ())))
      else if ChallengeType request = ''http-01'' then
        (case ACMEHttp01Registries env (Provider request) of
           Inl err \<Rightarrow> ([], Inl err)
         | Inr providerFactory \<Rightarrow>
             (case providerFactory
                     \<lparr> ProviderAccessConfig_opt = ProviderAccessConfig request,
                       ProviderExtendedConfig_opt = ProviderExtendedConfig request,
                       DnsPropagationWait_opt = 0,
                       DnsPropagationTimeout_opt = 0,
                       DnsTTL_opt = 0 \<rparr> of
                Inl err \<Rightarrow>
                  ([], Inl (Wrapped (''failed to initialize http-01 provider '' @ [CHR 0x27]
                                      @ Provider request @ [CHR 0x27]) err))
              | Inr provider \<Rightarrow>
                  ([SetHTTP01Provider_ev provider (HttpDelayWait request)], Inr ())))
      else ([], Inl (ErrorString (''unsupported challenge type: '' @ [CHR 0x27]
                                   @ ChallengeType request @ [CHR 0x27]))))"

text \<open>The \<open>certificate.ObtainRequest\<close> that is built before the first call.\<close>

definition first_request :: "acme_env \<Rightarrow> ObtainCertificateRequest \<Rightarrow> ObtainRequest" where
  "first_request env request =
     \<lparr> Domains_req = Domains request,
       Bundle = True,
       Profile = ACMEProfile request,
       NotAfter_req = ValidityTo request,
       ReplacesCertID = (if ARIReplacesAcctUrl request = account_ACMEAcctUrl env
                         then ARIReplacesCertId request else '''') \<rparr>"

text \<open>The response that is built from the resource and from the request as it is then.\<close>

definition make_response :: "acme_env \<Rightarrow> Resource \<Rightarrow> ObtainRequest \<Rightarrow> ObtainCertificateResponse" where
  "make_response env resp req =
     \<lparr> CSR = TrimSpace env (CSR_res resp),
       FullChainCertificate = TrimSpace env (Certificate_res resp),
       IssuerCertificate = TrimSpace env (IssuerCertificate_res resp),
       PrivateKey = TrimSpace env (PrivateKey_res resp),
       ACMEAcctUrl = account_ACMEAcctUrl env,
       ACMECertUrl = CertURL resp,
       ACMECertStableUrl = CertStableURL resp,
       ARIReplaced = (ReplacesCertID req \<noteq> '''') \<rparr>"

definition ari_warning :: string where
  "ari_warning = ''the certificate has already been replaced, try to obtain again without ARI ...''"

text \<open>From the construction of the request to the end of the function.\<close>

definition obtain_with_retry ::
  "acme_env \<Rightarrow> ObtainCertificateRequest \<Rightarrow>
   acme_event list \<times> (acme_error + ObtainCertificateResponse)"
where
  "obtain_with_retry env request =
     (let req = first_request env request in
      case Obtain env 0 req of
        Inr resp \<Rightarrow> ([Obtain_ev req], Inr (make_response env resp req))
      | Inl err \<Rightarrow>
          (if \<not> errors_As_AlreadyReplaced err then ([Obtain_ev req], Inl err)
           else
             (let req' = req\<lparr> ReplacesCertID := '''' \<rparr> in
              case Obtain env 1 req' of
                Inl err' \<Rightarrow> ([Obtain_ev req, Warnf_ev ari_warning, Obtain_ev req'], Inl err')
              | Inr resp \<Rightarrow>
                  ([Obtain_ev req, Warnf_ev ari_warning, Obtain_ev req'],
                   Inr (make_response env resp req')))))"

text \<open>\<open>sendObtainCertificateRequest\<close>; \<open>None\<close> is the nil request.\<close>

definition sendObtainCertificateRequest ::
  "acme_env \<Rightarrow> ObtainCertificateRequest option \<Rightarrow>
   acme_event list \<times> (acme_error + ObtainCertificateResponse)"
where
  "sendObtainCertificateRequest env request_ptr =
     (case request_ptr of
        None \<Rightarrow> ([], Inl (ErrorString ''the request is nil''))
      | Some request \<Rightarrow>
          (let tr0 = [Setenv_ev ''LEGO_DISABLE_CNAME_SUPPORT''
                        (FormatBool (DisableFollowCNAME request))]
           in case set_challenge_provider env request of
                (tr1, Inl err) \<Rightarrow> (tr0 @ tr1, Inl err)
              | (tr1, Inr u) \<Rightarrow>
                  (case obtain_with_retry env request of
                     (tr2, res) \<Rightarrow> (tr0 @ tr1 @ tr2, res))))"

section \<open>ctcccloudao and ctcccloudelb: the SSL managers\<close>

text \<open>
  What \<open>Upload\<close> reads of the parsed certificate. The times of an X.509 certificate
  are whole seconds, but \<open>Upload\<close> compares whatever instant the parser returns.
\<close>

record x509_Certificate =
  Subject_CommonName :: string
  DNSNames :: "string list"
  NotBefore :: Time
  NotAfter :: Time

datatype upload_error =
    ParseError string
  | ContextError
  | RequestFailed string sdk_error
  | NilDereference

subsection \<open>ctcccloudao\<close>

record CertRecord =
  Id_rec :: int
  CN :: string
  SANs :: "string list"
  IssueTime :: int
  ExpiresTime :: int

record ListCertsRequest =
  Page :: int32
  PerPage :: int32
  UsageMode :: int32

record ListCertsReturnObj =
  Results :: "CertRecord list"

record ListCertsResponse =
  ReturnObj_list :: "ListCertsReturnObj option"

record CertDetail =
  Id_detail :: int
  Name_detail :: string
  Certs :: string

record QueryCertReturnObj =
  Result :: "CertDetail option"

record QueryCertResponse =
  ReturnObj_query :: "QueryCertReturnObj option"

record CreateCertRequest =
  Name_req :: string
  Certs_req :: string
  Key_req :: string

record CreateCertReturnObj =
  Id_created :: int

record CreateCertResponse =
  ReturnObj_create :: "CreateCertReturnObj option"

datatype ao_event =
    ListCerts_ev ListCertsRequest
  | QueryCert_ev int
  | CertificateExists_ev
  | CreateCert_ev CreateCertRequest

text \<open>
  The collaborators of \<open>Upload\<close>: \<open>strings.EqualFold\<close> of Go's library (equality of
  two UTF-8 texts under the simple case folding of Unicode), taken as it is, so that
  what is proved holds of the library's function; the two functions of the certificate
  utilities (parsing a PEM certificate, and the comparison of two PEM certificates by
  content); the three vendor calls; the cancellation check before each page (by
  iteration, from 0); and the clock that is read for the new name.
\<close>

record ao_env =
  EqualFold :: "string \<Rightarrow> string \<Rightarrow> bool"
  ParseCertificateFromPEM :: "string \<Rightarrow> string + x509_Certificate"
  EqualCertificatesFromPEM :: "string \<Rightarrow> string \<Rightarrow> bool"
  ListCerts :: "ListCertsRequest \<Rightarrow> sdk_error + ListCertsResponse"
  QueryCert :: "int \<Rightarrow> sdk_error + QueryCertResponse"
  CreateCert :: "CreateCertRequest \<Rightarrow> sdk_error + CreateCertResponse"
  ctxDone_ao :: "nat \<Rightarrow> bool"
  UnixMilli_ao :: int

text \<open>
  How the body of the inner loop is left for one record: by one of its five
  \<open>continue\<close> statements, named after what differed, or by a \<open>return\<close>.
\<close>

datatype difference = CN_differs | SANs_differ | NotBefore_differs | NotAfter_differs
  | Content_differs

datatype candidate = Continue difference | Return "upload_error + UploadResult"

text \<open>
  \<open>queryCertResp.ReturnObj.Result\<close> where both pointers are there, \<open>None\<close> where
  \<open>ReturnObj\<close> or \<open>Result\<close> is nil.
\<close>

definition detail_of :: "QueryCertResponse \<Rightarrow> CertDetail option" where
  "detail_of queryCertResp =
     (case ReturnObj_query queryCertResp of None \<Rightarrow> None | Some obj \<Rightarrow> Result obj)"

definition check_record ::
  "ao_env \<Rightarrow> x509_Certificate \<Rightarrow> string \<Rightarrow> CertRecord \<Rightarrow> ao_event list \<times> candidate"
where
  "check_record env certX509 certPEM certRecord =
     (if \<not> EqualFold env (Subject_CommonName certX509) (CN certRecord)
        then ([], Continue CN_differs)
      else if \<not> (DNSNames certX509 = SANs certRecord)
        then ([], Continue SANs_differ)
      else if \<not> (NotBefore certX509 = time_Unix (IssueTime certRecord) 0)
        then ([], Continue NotBefore_differs)
      else if \<not> (NotAfter certX509 = time_Unix (ExpiresTime certRecord) 0)
        then ([], Continue NotAfter_differs)
      else
        (case QueryCert env (Id_rec certRecord) of
           Inl err \<Rightarrow>
             ([QueryCert_ev (Id_rec certRecord)], Return (Inl (RequestFailed ''ao.QueryCert'' err)))
         | Inr queryCertResp \<Rightarrow>
             (if (case detail_of queryCertResp of
                    None \<Rightarrow> False
                  | Some detail \<Rightarrow> \<not> EqualCertificatesFromPEM env certPEM (Certs detail))
              then ([QueryCert_ev (Id_rec certRecord)], Continue Content_differs)
              else
                ([QueryCert_ev (Id_rec certRecord), CertificateExists_ev],
                 Return (case detail_of queryCertResp of
                           None \<Rightarrow> Inl NilDereference
                         | Some detail \<Rightarrow>
                             Inr \<lparr> CertId = decimal_int (Id_detail detail),
                                   CertName = Name_detail detail \<rparr>)))))"

text \<open>The inner loop over the records of one page; \<open>None\<close>: every record was passed over.\<close>

fun scan_records ::
  "ao_env \<Rightarrow> x509_Certificate \<Rightarrow> string \<Rightarrow> CertRecord list \<Rightarrow>
   ao_event list \<times> (upload_error + UploadResult) option"
where
  "scan_records env certX509 certPEM [] = ([], None)"
| "scan_records env certX509 certPEM (certRecord # rest) =
     (case check_record env certX509 certPEM certRecord of
        (tr, Return res) \<Rightarrow> (tr, Some res)
      | (tr, Continue why) \<Rightarrow>
          (case scan_records env certX509 certPEM rest of
             (tr', res) \<Rightarrow> (tr @ tr', res)))"

text \<open>
  The outer loop from the page \<open>listCertPage\<close>, which is its iteration \<open>n\<close>. A vendor
  that keeps answering full pages keeps it running, so it takes fuel, one unit per page.
  \<open>Some (tr, None)\<close> is the \<open>break\<close>: the inventory is exhausted and nothing matched.
\<close>

fun list_loop ::
  "nat \<Rightarrow> ao_env \<Rightarrow> x509_Certificate \<Rightarrow> string \<Rightarrow> int32 \<Rightarrow> nat \<Rightarrow>
   (ao_event list \<times> (upload_error + UploadResult) option) option"
where
  "list_loop 0 env certX509 certPEM listCertPage n = None"
| "list_loop (Suc fuel) env certX509 certPEM listCertPage n =
     (if ctxDone_ao env n then Some ([], Some (Inl ContextError))
      else
        (let listCertsReq = \<lparr> Page = listCertPage, PerPage = 1000, UsageMode = 0 \<rparr> in
         case ListCerts env listCertsReq of
           Inl err \<Rightarrow>
             Some ([ListCerts_ev listCertsReq], Some (Inl (RequestFailed ''ao.ListCerts'' err)))
         | Inr listCertsResp \<Rightarrow>
             (case (case ReturnObj_list listCertsResp of
                      None \<Rightarrow> ([], None)
                    | Some obj \<Rightarrow> scan_records env certX509 certPEM (Results obj)) of
                (tr, Some res) \<Rightarrow> Some (ListCerts_ev listCertsReq # tr, Some res)
              | (tr, None) \<Rightarrow>
                  (if (case ReturnObj_list listCertsResp of
                         None \<Rightarrow> True
                       | Some obj \<Rightarrow> length (Results obj) < 1000)
                   then Some (ListCerts_ev listCertsReq # tr, None)
                   else
                     (case list_loop fuel env certX509 certPEM (listCertPage + 1) (Suc n) of
                        None \<Rightarrow> None
                      | Some (tr', res) \<Rightarrow> Some (ListCerts_ev listCertsReq # tr @ tr', res))))))"

text \<open>The name of a new certificate: \<open>fmt.Sprintf("certimate-%d", time.Now().UnixMilli())\<close>.\<close>

definition new_cert_name :: "int \<Rightarrow> string" where
  "new_cert_name ms = ''certimate-'' @ decimal_int ms"

definition create_ao ::
  "ao_env \<Rightarrow> string \<Rightarrow> string \<Rightarrow> ao_event list \<times> (upload_error + UploadResult)"
where
  "create_ao env certPEM privkeyPEM =
     (let certName = new_cert_name (UnixMilli_ao env);
          createCertReq = \<lparr> Name_req = certName, Certs_req = certPEM, Key_req = privkeyPEM \<rparr>
      in case CreateCert env createCertReq of
           Inl err \<Rightarrow> ([CreateCert_ev createCertReq], Inl (RequestFailed ''ao.CreateCert'' err))
         | Inr createCertResp \<Rightarrow>
             (case ReturnObj_create createCertResp of
                None \<Rightarrow> ([CreateCert_ev createCertReq], Inl NilDereference)
              | Some obj \<Rightarrow>
                  ([CreateCert_ev createCertReq],
                   Inr \<lparr> CertId = decimal_int (Id_created obj), CertName = certName \<rparr>)))"

definition Upload_ao ::
  "nat \<Rightarrow> ao_env \<Rightarrow> string \<Rightarrow> string \<Rightarrow> (ao_event list \<times> (upload_error + UploadResult)) option"
where
  "Upload_ao fuel env certPEM privkeyPEM =
     (case ParseCertificateFromPEM env certPEM of
        Inl err \<Rightarrow> Some ([], Inl (ParseError err))
      | Inr certX509 \<Rightarrow>
          (case list_loop fuel env certX509 certPEM 1 0 of
             None \<Rightarrow> None
           | Some (tr, Some res) \<Rightarrow> Some (tr, res)
           | Some (tr, None) \<Rightarrow>
               (case create_ao env certPEM privkeyPEM of
                  (tr', res) \<Rightarrow> Some (tr @ tr', res))))"

subsection \<open>ctcccloudelb\<close>

record SSLManagerProviderConfig_elb =
  AccessKeyId :: string
  SecretAccessKey :: string
  RegionId :: string

record CertificateRecord_elb =
  ID :: string
  Name :: string
  Certificate :: string

record CreateCertificateRequest =
  ClientToken :: string
  RegionID :: string
  Name_new :: string
  Description :: string
  Type :: string
  Certificate_new :: string
  PrivateKey_new :: string

record CreateCertificateResponse =
  ReturnObj_new :: "string option"

datatype elb_event =
    ListCertificates_ev string
  | CertificateExists_elb_ev
  | CreateCertificate_ev CreateCertificateRequest

text \<open>
  The collaborators: the comparison of the certificate utilities, the two vendor calls
  (the list call by its region), the clock and the UUID of \<open>generateClientToken\<close>.
  \<open>ReturnObj_new\<close> is the pointer to the created object, given by its \<open>ID\<close>.
\<close>

record elb_env =
  EqualCertificatesFromPEM_elb :: "string \<Rightarrow> string \<Rightarrow> bool"
  ListCertificates :: "string \<Rightarrow> sdk_error + CertificateRecord_elb list"
  CreateCertificate :: "CreateCertificateRequest \<Rightarrow> sdk_error + CreateCertificateResponse"
  UnixMilli_elb :: int
  generateClientToken :: string

definition create_elb ::
  "elb_env \<Rightarrow> SSLManagerProviderConfig_elb \<Rightarrow> string \<Rightarrow> string \<Rightarrow>
   elb_event list \<times> (upload_error + UploadResult)"
where
  "create_elb env config certPEM privkeyPEM =
     (let certName = new_cert_name (UnixMilli_elb env);
          createCertificateReq =
            \<lparr> ClientToken = generateClientToken env,
              RegionID = RegionId config,
              Name_new = certName,
              Description = ''upload from certimate'',
              Type = ''Server'',
              Certificate_new = certPEM,
              PrivateKey_new = privkeyPEM \<rparr>
      in case CreateCertificate env createCertificateReq of
           Inl err \<Rightarrow>
             ([CreateCertificate_ev createCertificateReq],
              Inl (RequestFailed ''elb.CreateCertificate'' err))
         | Inr createCertificateResp \<Rightarrow>
             (case ReturnObj_new createCertificateResp of
                None \<Rightarrow> ([CreateCertificate_ev createCertificateReq], Inl NilDereference)
              | Some newId \<Rightarrow>
                  ([CreateCertificate_ev createCertificateReq],
                   Inr \<lparr> CertId = newId, CertName = certName \<rparr>)))"

definition Upload_elb ::
  "elb_env \<Rightarrow> SSLManagerProviderConfig_elb \<Rightarrow> string \<Rightarrow> string \<Rightarrow>
   elb_event list \<times> (upload_error + UploadResult)"
where
  "Upload_elb env config certPEM privkeyPEM =
     (case ListCertificates env (RegionId config) of
        Inl err \<Rightarrow>
          ([ListCertificates_ev (RegionId config)],
           Inl (RequestFailed ''elb.ListCertificates'' err))
      | Inr records \<Rightarrow>
          (case find (\<lambda>certRecord. EqualCertificatesFromPEM_elb env certPEM
                                     (Certificate certRecord)) records of
             Some certRecord \<Rightarrow>
               ([ListCertificates_ev (RegionId config), CertificateExists_elb_ev],
                Inr \<lparr> CertId = ID certRecord, CertName = Name certRecord \<rparr>)
           | None \<Rightarrow>
               (case create_elb env config certPEM privkeyPEM of
                  (tr, res) \<Rightarrow> (ListCertificates_ev (RegionId config) # tr, res))))"

section \<open>Notions used to state the properties of the deployer\<close>

text \<open>The polls and the sleeps of a run, read off its trace.\<close>

fun is_poll :: "cdn_event \<Rightarrow> bool" where
  "is_poll (DescribeHostDeployRecordDetail_ev _) = True"
| "is_poll _ = False"

fun sleep_of :: "cdn_event \<Rightarrow> nat option" where
  "sleep_of (Sleep_ev s) = Some s"
| "sleep_of _ = None"

definition polls :: "cdn_event list \<Rightarrow> nat" where
  "polls tr = length (filter is_poll tr)"

definition sleeps :: "cdn_event list \<Rightarrow> nat list" where
  "sleeps tr = List.map_filter sleep_of tr"

text \<open>
  An answer that ends the loop by its \<open>break\<close>, and an answer after which the loop logs,
  sleeps and polls again: both carry a total, and differ in whether
  \<open>succeeded + failed = total\<close> holds in \<open>int64\<close>.
\<close>

definition job_done :: "DescribeHostDeployRecordDetailResponse \<Rightarrow> bool" where
  "job_done d \<longleftrightarrow>
     TotalCount d \<noteq> None \<and>
     count_or_zero (SuccessTotalCount d) + count_or_zero (FailedTotalCount d)
       = count_or_zero (TotalCount d)"

definition job_pending :: "DescribeHostDeployRecordDetailResponse \<Rightarrow> bool" where
  "job_pending d \<longleftrightarrow>
     TotalCount d \<noteq> None \<and>
     count_or_zero (SuccessTotalCount d) + count_or_zero (FailedTotalCount d)
       \<noteq> count_or_zero (TotalCount d)"

text \<open>The vendor's answer to the poll number \<open>i\<close> for the deploy record \<open>r\<close>.\<close>

definition polled ::
  "cdn_env \<Rightarrow> uint64 \<Rightarrow> nat \<Rightarrow> sdk_error + DescribeHostDeployRecordDetailResponse" where
  "polled env r i = DescribeHostDeployRecordDetail env i (decimal (unat r))"

text \<open>
  An example: an answer \<open>{running, succeeded, failed, total}\<close>, and a vendor that accepts
  the upload and the job (deploy record 7) and answers the polls from a script.
\<close>

definition counts ::
  "int64 \<Rightarrow> int64 \<Rightarrow> int64 \<Rightarrow> int64 \<Rightarrow> DescribeHostDeployRecordDetailResponse" where
  "counts r s f t = \<lparr> TotalCount = Some t, RunningTotalCount = Some r,
                      SuccessTotalCount = Some s, FailedTotalCount = Some f \<rparr>"

definition scripted_env :: "DescribeHostDeployRecordDetailResponse list \<Rightarrow> cdn_env" where
  "scripted_env script =
     \<lparr> sslUpload = (\<lambda>c k. Inr \<lparr> CertId = ''cert-1'', CertName = ''certimate'' \<rparr>),
       DescribeCertDomains = (\<lambda>c. Inr []),
       DescribeDeployedResources = (\<lambda>c. Inr []),
       DeployCertificateInstance = (\<lambda>req. Inr \<lparr> DeployRecordId = Some 7 \<rparr>),
       DescribeHostDeployRecordDetail =
         (\<lambda>n recId. if n < length script then Inr (script ! n)
                     else Inl (SdkError ''script exhausted'')),
       ctxDone = (\<lambda>n. False) \<rparr>"

definition demo_config :: DeployerConfig where
  "demo_config = \<lparr> SecretId = ''id'', SecretKey = ''key'', Domain_cfg = ''cdn.example.com'' \<rparr>"


section \<open>Notions used to state the properties of the ACME client\<close>

text \<open>
  The \<open>Obtain\<close> requests of a run in the order they were sent, and an example CA that
  answers from a script. The example is stated for every function in the place of
  \<open>strings.TrimSpace\<close>.
\<close>

fun obtain_of :: "acme_event \<Rightarrow> ObtainRequest option" where
  "obtain_of (Obtain_ev req) = Some req"
| "obtain_of _ = None"

definition obtain_calls :: "acme_event list \<Rightarrow> ObtainRequest list" where
  "obtain_calls tr = List.map_filter obtain_of tr"

definition scripted_ca :: "(string \<Rightarrow> string) \<Rightarrow> (acme_error + Resource) list \<Rightarrow> acme_env" where
  "scripted_ca trim answers =
     \<lparr> TrimSpace = trim,
       account_ACMEAcctUrl = ''https://ca.example/acct/1'',
       ACMEDns01Registries = (\<lambda>p. Inr (\<lambda>opts. Inr (ChallengeProvider p))),
       ACMEHttp01Registries = (\<lambda>p. Inr (\<lambda>opts. Inr (ChallengeProvider p))),
       Obtain = (\<lambda>n req. if n < length answers then answers ! n
                           else Inl (ErrorString ''no answer'')) \<rparr>"

definition demo_request :: "string \<Rightarrow> string \<Rightarrow> ObtainCertificateRequest" where
  "demo_request acct certId =
     \<lparr> Domains = [''example.com''], KeyType = ''EC256'',
       ValidityTo = time_Unix 0 0, ChallengeType = ''dns-01'', Provider = ''demo'',
       ProviderAccessConfig = [], ProviderExtendedConfig = [],
       DisableFollowCNAME = False, Nameservers = [],
       DnsPropagationWait = 0, DnsPropagationTimeout = 0, DnsTTL = 0, HttpDelayWait = 0,
       ACMEProfile = '''', ARIReplacesAcctUrl = acct, ARIReplacesCertId = certId \<rparr>"

definition demo_resource :: Resource where
  "demo_resource =
     \<lparr> CSR_res = ''csr'', Certificate_res = ''chain'', IssuerCertificate_res = ''issuer'',
       PrivateKey_res = ''key'', CertURL = ''https://ca.example/cert/2'',
       CertStableURL = ''https://ca.example/cert/2'' \<rparr>"

section \<open>Notions used to state the properties of the SSL managers\<close>

text \<open>
  The \<open>CreateCert\<close> calls and the pages fetched in a run; the request for a page; a
  record that the inner loop passes over; a full page of such records, after which the
  next page is fetched.
\<close>

fun is_create :: "ao_event \<Rightarrow> bool" where
  "is_create (CreateCert_ev _) = True"
| "is_create _ = False"

fun page_of :: "ao_event \<Rightarrow> int32 option" where
  "page_of (ListCerts_ev req) = Some (Page req)"
| "page_of _ = None"

definition creates_ao :: "ao_event list \<Rightarrow> nat" where
  "creates_ao tr = length (filter is_create tr)"

definition pages_ao :: "ao_event list \<Rightarrow> int32 list" where
  "pages_ao tr = List.map_filter page_of tr"

definition page_req :: "int32 \<Rightarrow> ListCertsRequest" where
  "page_req pg = \<lparr> Page = pg, PerPage = 1000, UsageMode = 0 \<rparr>"

definition passed_over :: "ao_env \<Rightarrow> x509_Certificate \<Rightarrow> string \<Rightarrow> CertRecord \<Rightarrow> bool" where
  "passed_over env c pem r =
     (case snd (check_record env c pem r) of Continue why \<Rightarrow> True | Return res \<Rightarrow> False)"

definition full_page_without_match ::
  "ao_env \<Rightarrow> x509_Certificate \<Rightarrow> string \<Rightarrow> int32 \<Rightarrow> bool" where
  "full_page_without_match env c pem pg =
     (case ListCerts env (page_req pg) of
        Inl err \<Rightarrow> False
      | Inr resp \<Rightarrow>
          (case ReturnObj_list resp of
             None \<Rightarrow> False
           | Some obj \<Rightarrow> 1000 \<le> length (Results obj)
                          \<and> list_all (passed_over env c pem) (Results obj)))"

text \<open>
  A page that ends the enumeration without a match: the answer has no \<open>ReturnObj\<close>,
  or fewer than 1000 records, all of them passed over.
\<close>

definition last_page_without_match ::
  "ao_env \<Rightarrow> x509_Certificate \<Rightarrow> string \<Rightarrow> int32 \<Rightarrow> bool" where
  "last_page_without_match env c pem pg =
     (case ListCerts env (page_req pg) of
        Inl err \<Rightarrow> False
      | Inr resp \<Rightarrow>
          (case ReturnObj_list resp of
             None \<Rightarrow> True
           | Some obj \<Rightarrow> length (Results obj) < 1000
                          \<and> list_all (passed_over env c pem) (Results obj)))"

text \<open>
  An example certificate, example records and example vendors. The common names of the
  example are ASCII texts; on two ASCII texts \<open>strings.EqualFold\<close> is the equality
  after the letters \<open>A\<close> to \<open>Z\<close> are folded to lower case, and this is the answer
  that stands for the library in the example, where no other text is compared.
\<close>

definition fold_char :: "char \<Rightarrow> char" where
  "fold_char c =
     (let n = (of_char c :: nat) in if 65 \<le> n \<and> n \<le> 90 then char_of (n + 32) else c)"

definition ascii_EqualFold :: "string \<Rightarrow> string \<Rightarrow> bool" where
  "ascii_EqualFold s t = (map fold_char s = map fold_char t)"

definition demo_cert :: x509_Certificate where
  "demo_cert = \<lparr> Subject_CommonName = ''Example.COM'',
                 DNSNames = [''example.com'', ''www.example.com''],
                 NotBefore = time_Unix 1700000000 0,
                 NotAfter = time_Unix 1707776000 0 \<rparr>"

definition listed :: "int \<Rightarrow> string \<Rightarrow> string list \<Rightarrow> CertRecord" where
  "listed i cn sans = \<lparr> Id_rec = i, CN = cn, SANs = sans,
                        IssueTime = 1700000000, ExpiresTime = 1707776000 \<rparr>"

definition detail :: "int \<Rightarrow> string \<Rightarrow> string \<Rightarrow> sdk_error + QueryCertResponse" where
  "detail i name pem =
     Inr \<lparr> ReturnObj_query =
             Some \<lparr> Result = Some \<lparr> Id_detail = i, Name_detail = name, Certs = pem \<rparr> \<rparr> \<rparr>"

definition demo_ao_env ::
  "(int32 \<Rightarrow> CertRecord list) \<Rightarrow> (int \<Rightarrow> sdk_error + QueryCertResponse) \<Rightarrow> ao_env" where
  "demo_ao_env pages details =
     \<lparr> EqualFold = ascii_EqualFold,
       ParseCertificateFromPEM =
         (\<lambda>pem. if pem = ''pem-1'' then Inr demo_cert else Inl ''no certificate''),
       EqualCertificatesFromPEM = (\<lambda>a b. a = b),
       ListCerts = (\<lambda>req. Inr \<lparr> ReturnObj_list = Some \<lparr> Results = pages (Page req) \<rparr> \<rparr>),
       QueryCert = details,
       CreateCert = (\<lambda>req. Inr \<lparr> ReturnObj_create = Some \<lparr> Id_created = 42 \<rparr> \<rparr>),
       ctxDone_ao = (\<lambda>n. False),
       UnixMilli_ao = 1700000000123 \<rparr>"

definition two_pages :: "int32 \<Rightarrow> CertRecord list" where
  "two_pages pg =
     (if pg = 1 then replicate 1000 (listed 1 ''other.example'' [''other.example''])
      else if pg = 2 then
        [listed 2 ''example.com'' [''www.example.com'', ''example.com''],
         listed 3 ''EXAMPLE.com'' [''example.com'', ''www.example.com''],
         listed 4 ''example.com'' [''example.com'', ''www.example.com'']]
      else [])"

text \<open>
  An inventory without a match: a full page of other names, then a record with the SANs
  in another order and a record with the same metadata and another content.
\<close>

definition unmatched_pages :: "int32 \<Rightarrow> CertRecord list" where
  "unmatched_pages pg =
     (if pg = 1 then replicate 1000 (listed 1 ''other.example'' [''other.example''])
      else if pg = 2 then
        [listed 2 ''example.com'' [''www.example.com'', ''example.com''],
         listed 5 ''example.com'' [''example.com'', ''www.example.com'']]
      else [])"

definition demo_elb_env :: "CertificateRecord_elb list \<Rightarrow> elb_env" where
  "demo_elb_env records =
     \<lparr> EqualCertificatesFromPEM_elb = (\<lambda>a b. a = b),
       ListCertificates = (\<lambda>region. Inr records),
       CreateCertificate = (\<lambda>req. Inr \<lparr> ReturnObj_new = Some ''cert-new'' \<rparr>),
       UnixMilli_elb = 1700000000123,
       generateClientToken = ''2f1e4c9a-0000-4000-8000-000000000001'' \<rparr>"

definition demo_elb_config :: SSLManagerProviderConfig_elb where
  "demo_elb_config = \<lparr> AccessKeyId = ''ak'', SecretAccessKey = ''sk'', RegionId = ''region-1'' \<rparr>"

section \<open>Properties of the deployer\<close>

lemma pending_step:
  assumes "\<not> ctxDone env n" and "polled env r n = Inr d" and "job_pending d"
  shows "poll_loop (Suc fuel) env (Some r) n =
           (case poll_loop fuel env (Some r) (Suc n) of
              None \<Rightarrow> None
            | Some (tr, res) \<Rightarrow>
                Some (DescribeHostDeployRecordDetail_ev (decimal (unat r))
                        # Waiting_ev (count_or_zero (RunningTotalCount d))
                            (count_or_zero (SuccessTotalCount d))
                            (count_or_zero (FailedTotalCount d))
                            (count_or_zero (TotalCount d))
                        # Sleep_ev 5 # tr, res))"
  using assms by (auto simp: polled_def job_pending_def Let_def)

lemma done_step:
  assumes "\<not> ctxDone env n" and "polled env r n = Inr d" and "job_done d"
  shows "poll_loop (Suc fuel) env (Some r) n =
           Some ([DescribeHostDeployRecordDetail_ev (decimal (unat r))], Inr ())"
  using assms by (simp add: polled_def job_done_def Let_def)

lemma nil_total_step:
  assumes "\<not> ctxDone env n" and "polled env r n = Inr d" and "TotalCount d = None"
  shows "poll_loop (Suc fuel) env (Some r) n =
           Some ([DescribeHostDeployRecordDetail_ev (decimal (unat r))], Inl UnexpectedJobStatus)"
  using assms by (simp add: polled_def Let_def)

lemma break_only_if:
  "poll_loop (Suc fuel) env (Some r) n = Some (tr, Inr ()) \<Longrightarrow>
     \<not> ctxDone env n \<and> (\<exists>d. polled env r n = Inr d \<and>
        (job_done d \<and> tr = [DescribeHostDeployRecordDetail_ev (decimal (unat r))]
         \<or> job_pending d \<and> (\<exists>tr'. poll_loop fuel env (Some r) (Suc n) = Some (tr', Inr ())
              \<and> tr = DescribeHostDeployRecordDetail_ev (decimal (unat r))
                        # Waiting_ev (count_or_zero (RunningTotalCount d))
                            (count_or_zero (SuccessTotalCount d))
                            (count_or_zero (FailedTotalCount d))
                            (count_or_zero (TotalCount d))
                        # Sleep_ev 5 # tr')))"
  by (auto simp: polled_def job_done_def job_pending_def Let_def split: if_splits sum.splits option.splits)

lemma polls_simps:
  "polls [] = 0"
  "polls (DescribeHostDeployRecordDetail_ev x # tr) = Suc (polls tr)"
  "polls (Waiting_ev a b c d # tr) = polls tr"
  "polls (Sleep_ev s # tr) = polls tr"
  by (simp_all add: polls_def)

lemma sleeps_simps:
  "sleeps [] = []"
  "sleeps (DescribeHostDeployRecordDetail_ev x # tr) = sleeps tr"
  "sleeps (Waiting_ev a b c d # tr) = sleeps tr"
  "sleeps (Sleep_ev s # tr) = s # sleeps tr"
  by (simp_all add: sleeps_def List.map_filter_simps)

text \<open>
  Claim C2, as amended. The loop of \<open>Deploy\<close>, entered at iteration \<open>n\<close>, leaves through its
  \<open>break\<close> after exactly \<open>k + 1\<close> polls and \<open>k\<close> sleeps of 5 seconds if and only if
  the fuel allows \<open>k + 1\<close> iterations, the context is not done at any of them, the first
  \<open>k\<close> answers carry a total with \<open>succeeded + failed \<noteq> total\<close>, and the answer
  number \<open>k\<close> carries a total with \<open>succeeded + failed = total\<close>. The sum is the one of
  \<open>int64\<close>. (Of the sequence \<open>{0,0,0,0}\<close>, \<open>{0,3,2,5}\<close> the first answer already
  satisfies the equation: see the counterexample below.)
\<close>

theorem poll_loop_breaks_iff:
  "(\<exists>tr. poll_loop fuel env (Some r) n = Some (tr, Inr ()) \<and> polls tr = Suc k
          \<and> sleeps tr = replicate k 5)
   \<longleftrightarrow> k < fuel
       \<and> (\<forall>i<k. \<not> ctxDone env (n + i) \<and> (\<exists>d. polled env r (n + i) = Inr d \<and> job_pending d))
       \<and> \<not> ctxDone env (n + k) \<and> (\<exists>d. polled env r (n + k) = Inr d \<and> job_done d)"
proof (induction fuel arbitrary: n k)
  case 0
  show ?case by simp
next
  case (Suc fuel)
  show ?case
  proof (cases k)
    case 0
    show ?thesis
    proof
      assume "\<exists>tr. poll_loop (Suc fuel) env (Some r) n = Some (tr, Inr ()) \<and> polls tr = Suc k
          \<and> sleeps tr = replicate k 5"
      then obtain tr where tr: "poll_loop (Suc fuel) env (Some r) n = Some (tr, Inr ())"
        and s: "sleeps tr = replicate k 5" by blast
      from break_only_if [OF tr] s 0 show "k < Suc fuel
       \<and> (\<forall>i<k. \<not> ctxDone env (n + i) \<and> (\<exists>d. polled env r (n + i) = Inr d \<and> job_pending d))
       \<and> \<not> ctxDone env (n + k) \<and> (\<exists>d. polled env r (n + k) = Inr d \<and> job_done d)"
        by (auto simp: sleeps_simps)
    next
      assume "k < Suc fuel
       \<and> (\<forall>i<k. \<not> ctxDone env (n + i) \<and> (\<exists>d. polled env r (n + i) = Inr d \<and> job_pending d))
       \<and> \<not> ctxDone env (n + k) \<and> (\<exists>d. polled env r (n + k) = Inr d \<and> job_done d)"
      with 0 obtain d where "\<not> ctxDone env n" "polled env r n = Inr d" "job_done d" by auto
      from done_step [OF this, of fuel] 0
      show "\<exists>tr. poll_loop (Suc fuel) env (Some r) n = Some (tr, Inr ()) \<and> polls tr = Suc k
          \<and> sleeps tr = replicate k 5"
        by (simp add: polls_simps sleeps_simps)
    qed
  next
    case (Suc k')
    have shift: "(\<forall>i<Suc k'. \<not> ctxDone env (n + i) \<and> (\<exists>d. polled env r (n + i) = Inr d \<and> job_pending d))
       \<longleftrightarrow> (\<not> ctxDone env n \<and> (\<exists>d. polled env r n = Inr d \<and> job_pending d))
          \<and> (\<forall>i<k'. \<not> ctxDone env (Suc n + i) \<and> (\<exists>d. polled env r (Suc n + i) = Inr d \<and> job_pending d))"
      by (auto simp: less_Suc_eq_0_disj)
    show ?thesis
    proof
      assume "\<exists>tr. poll_loop (Suc fuel) env (Some r) n = Some (tr, Inr ()) \<and> polls tr = Suc k
          \<and> sleeps tr = replicate k 5"
      then obtain tr where tr: "poll_loop (Suc fuel) env (Some r) n = Some (tr, Inr ())"
        and p: "polls tr = Suc k" and s: "sleeps tr = replicate k 5" by blast
      from break_only_if [OF tr] p s Suc
      obtain d tr' where here: "\<not> ctxDone env n" "polled env r n = Inr d" "job_pending d"
        and rest: "poll_loop fuel env (Some r) (Suc n) = Some (tr', Inr ())"
                  "polls tr' = Suc k'" "sleeps tr' = replicate k' 5"
        by (auto simp: polls_simps sleeps_simps)
      from rest have "\<exists>tr. poll_loop fuel env (Some r) (Suc n) = Some (tr, Inr ()) \<and> polls tr = Suc k'
          \<and> sleeps tr = replicate k' 5" by blast
      with Suc.IH [of "Suc n" k'] here Suc shift
      show "k < Suc fuel
       \<and> (\<forall>i<k. \<not> ctxDone env (n + i) \<and> (\<exists>d. polled env r (n + i) = Inr d \<and> job_pending d))
       \<and> \<not> ctxDone env (n + k) \<and> (\<exists>d. polled env r (n + k) = Inr d \<and> job_done d)"
        by auto
    next
      assume a: "k < Suc fuel
       \<and> (\<forall>i<k. \<not> ctxDone env (n + i) \<and> (\<exists>d. polled env r (n + i) = Inr d \<and> job_pending d))
       \<and> \<not> ctxDone env (n + k) \<and> (\<exists>d. polled env r (n + k) = Inr d \<and> job_done d)"
      with Suc shift obtain d where here: "\<not> ctxDone env n" "polled env r n = Inr d" "job_pending d"
        by auto
      from a Suc shift have "k' < fuel
       \<and> (\<forall>i<k'. \<not> ctxDone env (Suc n + i) \<and> (\<exists>d. polled env r (Suc n + i) = Inr d \<and> job_pending d))
       \<and> \<not> ctxDone env (Suc n + k') \<and> (\<exists>d. polled env r (Suc n + k') = Inr d \<and> job_done d)"
        by auto
      with Suc.IH [of "Suc n" k'] obtain tr' where
        rest: "poll_loop fuel env (Some r) (Suc n) = Some (tr', Inr ())"
              "polls tr' = Suc k'" "sleeps tr' = replicate k' 5" by blast
      from pending_step [OF here, of fuel] rest Suc
      show "\<exists>tr. poll_loop (Suc fuel) env (Some r) n = Some (tr, Inr ()) \<and> polls tr = Suc k
          \<and> sleeps tr = replicate k 5"
        by (simp add: polls_simps sleeps_simps)
    qed
  qed
qed


lemma polls_append: "polls (xs @ ys) = polls xs + polls ys"
  by (simp add: polls_def)

lemma sleeps_append: "sleeps (xs @ ys) = sleeps xs @ sleeps ys"
  by (simp add: sleeps_def List.map_filter_def)

lemma pending_prefix:
  assumes "\<forall>i<k. \<not> ctxDone env (n + i) \<and> (\<exists>d. polled env r (n + i) = Inr d \<and> job_pending d)"
  shows "\<exists>pre. polls pre = k \<and> sleeps pre = replicate k 5 \<and>
           (\<forall>f. poll_loop (k + f) env (Some r) n =
                  (case poll_loop f env (Some r) (n + k) of
                     None \<Rightarrow> None
                   | Some (tr, res) \<Rightarrow> Some (pre @ tr, res)))"
  using assms
proof (induction k arbitrary: n)
  case 0
  have "polls [] = 0 \<and> sleeps [] = replicate 0 5 \<and>
           (\<forall>f. poll_loop (0 + f) env (Some r) n =
                  (case poll_loop f env (Some r) (n + 0) of
                     None \<Rightarrow> None
                   | Some (tr, res) \<Rightarrow> Some ([] @ tr, res)))"
    by (auto simp del: poll_loop.simps simp: polls_simps sleeps_simps split: option.splits)
  then show ?case by blast
next
  case (Suc k)
  from Suc.prems [rule_format, of 0]
  obtain d where here: "\<not> ctxDone env n" "polled env r n = Inr d" "job_pending d"
    by auto
  have "\<forall>i<k. \<not> ctxDone env (Suc n + i) \<and>
      (\<exists>d. polled env r (Suc n + i) = Inr d \<and> job_pending d)"
  proof (intro allI impI)
    fix i assume "i < k"
    with Suc.prems [rule_format, of "Suc i"]
    show "\<not> ctxDone env (Suc n + i) \<and>
      (\<exists>d. polled env r (Suc n + i) = Inr d \<and> job_pending d)" by simp
  qed
  from Suc.IH [OF this] obtain pre where all: "polls pre = k \<and> sleeps pre = replicate k 5 \<and>
    (\<forall>f. poll_loop (k + f) env (Some r) (Suc n) =
                  (case poll_loop f env (Some r) (Suc n + k) of
                     None \<Rightarrow> None
                   | Some (tr, res) \<Rightarrow> Some (pre @ tr, res)))" ..
  from all have pre: "polls pre = k" "sleeps pre = replicate k 5"
    "\<And>f. poll_loop (k + f) env (Some r) (Suc n) =
                  (case poll_loop f env (Some r) (Suc n + k) of
                     None \<Rightarrow> None
                   | Some (tr, res) \<Rightarrow> Some (pre @ tr, res))" by simp_all
  let ?round = "[DescribeHostDeployRecordDetail_ev (decimal (unat r)),
                 Waiting_ev (count_or_zero (RunningTotalCount d))
                            (count_or_zero (SuccessTotalCount d))
                            (count_or_zero (FailedTotalCount d))
                            (count_or_zero (TotalCount d)),
                 Sleep_ev 5]"
  have "polls (?round @ pre) = Suc k" "sleeps (?round @ pre) = replicate (Suc k) 5"
    using pre(1,2) by (simp_all add: polls_simps sleeps_simps)
  moreover have "\<forall>f. poll_loop (Suc k + f) env (Some r) n =
                  (case poll_loop f env (Some r) (n + Suc k) of
                     None \<Rightarrow> None
                   | Some (tr, res) \<Rightarrow> Some ((?round @ pre) @ tr, res))"
  proof
    fix f
    have "poll_loop (Suc k + f) env (Some r) n = poll_loop (Suc (k + f)) env (Some r) n"
      by (simp del: poll_loop.simps)
    also have "\<dots> = (case poll_loop (k + f) env (Some r) (Suc n) of
              None \<Rightarrow> None
            | Some (tr, res) \<Rightarrow> Some (?round @ tr, res))"
      by (simp only: pending_step [OF here] append.simps)
    also have "\<dots> = (case poll_loop f env (Some r) (n + Suc k) of
                     None \<Rightarrow> None
                   | Some (tr, res) \<Rightarrow> Some ((?round @ pre) @ tr, res))"
      by (simp del: poll_loop.simps add: pre(3) split: option.splits)
    finally show "poll_loop (Suc k + f) env (Some r) n =
                  (case poll_loop f env (Some r) (n + Suc k) of
                     None \<Rightarrow> None
                   | Some (tr, res) \<Rightarrow> Some ((?round @ pre) @ tr, res))" .
  qed
  ultimately show ?case by blast
qed

lemma select_instances_no_polls: "select_instances env config c = (tr, res) \<Longrightarrow> polls tr = 0"
  by (auto simp: select_instances_def polls_def split: if_splits)

lemma skip_deployed_no_polls: "skip_deployed env c ids = (tr, res) \<Longrightarrow> polls tr = 0"
  by (auto simp: skip_deployed_def polls_def split: if_splits)

lemma submit_no_polls: "submit env c ids = (tr, res) \<Longrightarrow> polls tr = 0"
  by (auto simp: submit_def polls_def Let_def split: if_splits)

lemma submit_phase_no_polls:
  assumes "submit_phase env config certPEM privkeyPEM = (tr, res)"
  shows "polls tr = 0"
proof (cases "sslUpload env certPEM privkeyPEM")
  case (Inl e)
  with assms show ?thesis by (auto simp: submit_phase_def polls_def)
next
  case (Inr upres)
  obtain tr1 r1 where s1: "select_instances env config (CertId upres) = (tr1, r1)"
    by (cases "select_instances env config (CertId upres)")
  note p1 = select_instances_no_polls [OF s1]
  show ?thesis
  proof (cases r1)
    case (Inl e)
    with assms Inr s1 p1 show ?thesis by (auto simp: submit_phase_def polls_def)
  next
    case r1: (Inr instanceIds)
    obtain tr2 r2 where s2: "skip_deployed env (CertId upres) instanceIds = (tr2, r2)"
      by (cases "skip_deployed env (CertId upres) instanceIds")
    note p2 = skip_deployed_no_polls [OF s2]
    show ?thesis
    proof (cases r2)
      case (Inl e)
      with assms Inr s1 r1 s2 p1 p2 show ?thesis by (auto simp: submit_phase_def polls_def)
    next
      case r2: (Inr ids)
      obtain tr3 r3 where s3: "submit env (CertId upres) ids = (tr3, r3)"
        by (cases "submit env (CertId upres) ids")
      note p3 = submit_no_polls [OF s3]
      from assms Inr s1 r1 s2 r2 s3 p1 p2 p3 show ?thesis
        by (auto simp: submit_phase_def polls_def)
    qed
  qed
qed

text \<open>
  Claim C1, as amended. Take a run of \<open>Deploy\<close> that submits the job, polls \<open>k\<close> times
  an unfinished job and then receives, without error and without cancellation, an answer
  \<open>d\<close> that ends the loop. If \<open>d\<close> has no total, \<open>Deploy\<close> returns the error
  \<open>unexpected deployment job status\<close>; otherwise \<open>succeeded + failed = total\<close> and
  \<open>Deploy\<close> returns the empty \<open>DeployResult\<close> with no error, whatever the failed
  count is. Either way it has polled \<open>k + 1\<close> times.
\<close>

theorem Deploy_after_last_poll:
  assumes "submit_phase env config certPEM privkeyPEM = (tr0, Inr (Some resp))"
    and "DeployRecordId resp = Some r"
    and "\<forall>i<k. \<not> ctxDone env i \<and> (\<exists>d. polled env r i = Inr d \<and> job_pending d)"
    and "\<not> ctxDone env k" and "polled env r k = Inr d" and "\<not> job_pending d"
    and "k < fuel"
  shows "\<exists>tr. Deploy fuel env config certPEM privkeyPEM =
                Some (tr, if TotalCount d = None then Inl UnexpectedJobStatus else Inr DeployResult)
              \<and> polls tr = Suc k"
proof -
  from assms(3) have "\<forall>i<k. \<not> ctxDone env (0 + i) \<and> (\<exists>d. polled env r (0 + i) = Inr d \<and> job_pending d)"
    by simp
  from pending_prefix [OF this] obtain pre where all: "polls pre = k \<and> sleeps pre = replicate k 5 \<and>
    (\<forall>f. poll_loop (k + f) env (Some r) 0 =
                  (case poll_loop f env (Some r) (0 + k) of
                     None \<Rightarrow> None
                   | Some (tr, res) \<Rightarrow> Some (pre @ tr, res)))" ..
  from all have pre: "polls pre = k"
    "\<And>f. poll_loop (k + f) env (Some r) 0 =
                  (case poll_loop f env (Some r) (0 + k) of
                     None \<Rightarrow> None
                   | Some (tr, res) \<Rightarrow> Some (pre @ tr, res))" by simp_all
  define f where "f = fuel - Suc k"
  from \<open>k < fuel\<close> have f: "fuel = k + Suc f"
    by (simp add: f_def)
  let ?ev = "DescribeHostDeployRecordDetail_ev (decimal (unat r))"
  have last: "poll_loop (Suc f) env (Some r) k =
      Some ([?ev], if TotalCount d = None then Inl UnexpectedJobStatus else Inr ())"
  proof (cases "TotalCount d = None")
    case True
    from nil_total_step [OF assms(4,5) True] True show ?thesis by simp
  next
    case False
    with assms(6) have "job_done d" by (simp add: job_done_def job_pending_def)
    from done_step [OF assms(4,5) this] False show ?thesis by simp
  qed
  have loop: "poll_loop fuel env (Some r) 0 =
      Some (pre @ [?ev], if TotalCount d = None then Inl UnexpectedJobStatus else Inr ())"
    by (simp only: f pre(2) [of "Suc f"] add_0 last option.case prod.case)
  have "Deploy fuel env config certPEM privkeyPEM =
          Some (tr0 @ pre @ [?ev],
                if TotalCount d = None then Inl UnexpectedJobStatus else Inr DeployResult)"
    using assms(1,2) loop by (simp add: Deploy_def)
  moreover have "polls (tr0 @ pre @ [?ev]) = Suc k"
    using submit_phase_no_polls [OF assms(1)] pre(1) by (simp add: polls_append polls_simps)
  ultimately show ?thesis by blast
qed


text \<open>
  Witness for C1: a job that is pending at the first poll and reports 3 succeeded and
  2 failed of 5 at the second one is a success of \<open>Deploy\<close>; a job whose second
  answer has no total is the protocol error.
\<close>

theorem Deploy_after_last_poll_witness:
  "(\<exists>tr. Deploy 2 (scripted_env [counts 5 0 0 5, counts 0 3 2 5]) demo_config ''cert'' ''key''
            = Some (tr, Inr DeployResult) \<and> polls tr = 2)
   \<and> (\<exists>tr. Deploy 2 (scripted_env [counts 5 0 0 5, (counts 0 5 0 5)\<lparr>TotalCount := None\<rparr>])
              demo_config ''cert'' ''key''
            = Some (tr, Inl UnexpectedJobStatus) \<and> polls tr = 2)"
proof -
  let ?tr0 = "[Upload_ev ''cert'' ''key'', DescribeDeployedResources_ev ''cert-1'',
               DeployCertificateInstance_ev
                 \<lparr> CertificateId = ''cert-1'', ResourceType = ''cdn'', Status = 1,
                   InstanceIdList = [''cdn.example.com''] \<rparr>]"
  let ?resp = "\<lparr> DeployRecordId = Some (7 :: uint64) \<rparr>"
  have sub: "submit_phase (scripted_env script) demo_config ''cert'' ''key''
               = (?tr0, Inr (Some ?resp))" for script
    by (simp add: submit_phase_def select_instances_def skip_deployed_def submit_def
          scripted_env_def demo_config_def getDeployedDomainsByCertificateId_def Let_def)
  have rid: "DeployRecordId ?resp = Some 7" by simp
  have ctx: "\<not> ctxDone (scripted_env script) i" for script i
    by (simp add: scripted_env_def)
  have first: "\<forall>i<1. \<not> ctxDone (scripted_env (counts 5 0 0 5 # rest)) i \<and>
      (\<exists>d. polled (scripted_env (counts 5 0 0 5 # rest)) 7 i = Inr d \<and> job_pending d)" for rest
    by (simp add: scripted_env_def polled_def job_pending_def counts_def count_or_zero_def)
  have second: "polled (scripted_env [a, b]) 7 1 = Inr b" for a b
    by (simp add: scripted_env_def polled_def)
  have np1: "\<not> job_pending (counts 0 3 2 5)"
    by (simp add: job_pending_def counts_def count_or_zero_def)
  have np2: "\<not> job_pending ((counts 0 5 0 5)\<lparr>TotalCount := None\<rparr>)"
    by (simp add: job_pending_def)
  have "1 < (2::nat)" by simp
  from Deploy_after_last_poll [OF sub rid first ctx second np1 this]
       Deploy_after_last_poll [OF sub rid first ctx second np2 this]
  show ?thesis by (simp add: counts_def numeral_2_eq_2)
qed

text \<open>
  Counterexample to C1 as stated: the first poll reports 3 succeeded and 2 failed of 5, so
  the loop ends with \<open>failed > 0\<close>, and \<open>Deploy\<close> returns its empty result with no
  error, not a failure that carries the counts.
\<close>

theorem Deploy_failed_count_counterexample:
  "Deploy 1 (scripted_env [counts 0 3 2 5]) demo_config ''cert'' ''key''
     = Some ([Upload_ev ''cert'' ''key'', DescribeDeployedResources_ev ''cert-1'',
              DeployCertificateInstance_ev
                \<lparr> CertificateId = ''cert-1'', ResourceType = ''cdn'', Status = 1,
                  InstanceIdList = [''cdn.example.com''] \<rparr>,
              DescribeHostDeployRecordDetail_ev ''7''],
             Inr DeployResult)"
  by code_simp

text \<open>
  Witness for C2: with the answers \<open>{1,0,0,5}\<close> and then \<open>{0,3,2,5}\<close> the loop leaves
  after the second poll and one sleep of 5 seconds.
\<close>

theorem poll_loop_breaks_iff_witness:
  "\<exists>tr. poll_loop 2 (scripted_env [counts 1 0 0 5, counts 0 3 2 5]) (Some 7) 0 = Some (tr, Inr ())
        \<and> polls tr = 2 \<and> sleeps tr = [5]"
proof -
  let ?env = "scripted_env [counts 1 0 0 5, counts 0 3 2 5]"
  have "(1::nat) < 2
       \<and> (\<forall>i<1. \<not> ctxDone ?env (0 + i) \<and> (\<exists>d. polled ?env 7 (0 + i) = Inr d \<and> job_pending d))
       \<and> \<not> ctxDone ?env (0 + 1) \<and> (\<exists>d. polled ?env 7 (0 + 1) = Inr d \<and> job_done d)"
    by (simp add: scripted_env_def polled_def job_pending_def job_done_def counts_def
          count_or_zero_def)
  from poll_loop_breaks_iff [of 2 ?env 7 0 1, THEN iffD2, OF this]
  show ?thesis by (simp add: numeral_2_eq_2)
qed

text \<open>
  Counterexample to C2 as stated: with the answers \<open>{0,0,0,0}\<close> and then \<open>{0,3,2,5}\<close>
  the loop leaves after the first poll, since \<open>0 + 0 = 0\<close>; the second answer is never
  asked for.
\<close>

theorem poll_loop_zero_counts_counterexample:
  "poll_loop 2 (scripted_env [counts 0 0 0 0, counts 0 3 2 5]) (Some 7) 0
     = Some ([DescribeHostDeployRecordDetail_ev ''7''], Inr ())"
  by code_simp

section \<open>Properties of the ACME client\<close>

lemma obtain_calls_simps:
  "obtain_calls [] = []"
  "obtain_calls (Obtain_ev req # tr) = req # obtain_calls tr"
  "obtain_calls (Setenv_ev a b # tr) = obtain_calls tr"
  "obtain_calls (SetDNS01Provider_ev p os # tr) = obtain_calls tr"
  "obtain_calls (SetHTTP01Provider_ev p d # tr) = obtain_calls tr"
  "obtain_calls (Warnf_ev w # tr) = obtain_calls tr"
  by (simp_all add: obtain_calls_def List.map_filter_simps)

lemma obtain_calls_append: "obtain_calls (xs @ ys) = obtain_calls xs @ obtain_calls ys"
  by (simp add: obtain_calls_def List.map_filter_def)

lemma set_challenge_provider_no_obtain:
  "set_challenge_provider env request = (tr1, r) \<Longrightarrow> obtain_calls tr1 = []"
  by (auto simp: set_challenge_provider_def obtain_calls_simps split: if_splits sum.splits)

lemma set_challenge_provider_no_warning:
  "set_challenge_provider env request = (tr1, r) \<Longrightarrow> Warnf_ev w \<notin> set tr1"
  by (auto simp: set_challenge_provider_def split: if_splits sum.splits)

lemma send_reaches_obtain:
  assumes "sendObtainCertificateRequest env (Some request) = (tr, res)"
      and "set_challenge_provider env request = (tr1, Inr u)"
  shows "\<exists>tr2. obtain_with_retry env request = (tr2, res) \<and> obtain_calls tr = obtain_calls tr2
           \<and> (\<forall>w. Warnf_ev w \<in> set tr \<longleftrightarrow> Warnf_ev w \<in> set tr2)"
  using assms set_challenge_provider_no_obtain [OF assms(2)]
    set_challenge_provider_no_warning [OF assms(2)]
  by (cases "obtain_with_retry env request")
     (auto simp: sendObtainCertificateRequest_def Let_def obtain_calls_simps obtain_calls_append)

lemma send_stops_before_obtain:
  assumes "sendObtainCertificateRequest env (Some request) = (tr, res)"
      and "set_challenge_provider env request = (tr1, Inl e)"
  shows "res = Inl e \<and> obtain_calls tr = []"
  using assms set_challenge_provider_no_obtain [OF assms(2)]
  by (auto simp: sendObtainCertificateRequest_def Let_def obtain_calls_simps obtain_calls_append)

lemma obtain_with_retry_cases:
  assumes "obtain_with_retry env request = (tr2, res)"
  shows "(\<exists>resp. Obtain env 0 (first_request env request) = Inr resp
            \<and> tr2 = [Obtain_ev (first_request env request)]
            \<and> res = Inr (make_response env resp (first_request env request)))
       \<or> (\<exists>err. Obtain env 0 (first_request env request) = Inl err
            \<and> \<not> errors_As_AlreadyReplaced err
            \<and> tr2 = [Obtain_ev (first_request env request)] \<and> res = Inl err)
       \<or> (\<exists>err. Obtain env 0 (first_request env request) = Inl err
            \<and> errors_As_AlreadyReplaced err
            \<and> tr2 = [Obtain_ev (first_request env request), Warnf_ev ari_warning,
                      Obtain_ev ((first_request env request)\<lparr>ReplacesCertID := ''''\<rparr>)]
            \<and> res = (case Obtain env 1 ((first_request env request)\<lparr>ReplacesCertID := ''''\<rparr>) of
                       Inl err' \<Rightarrow> Inl err'
                     | Inr resp \<Rightarrow> Inr (make_response env resp
                                          ((first_request env request)\<lparr>ReplacesCertID := ''''\<rparr>))))"
  using assms
  by (auto simp: obtain_with_retry_def Let_def split: sum.splits if_splits)

text \<open>
  Claim C5. Take a call of \<open>sendObtainCertificateRequest\<close> that installs its challenge
  provider, and whose first \<open>Obtain\<close> fails with \<open>err\<close>. If \<open>err\<close> is (or wraps) an
  \<open>AlreadyReplacedError\<close>, exactly two \<open>Obtain\<close> calls are made, the second with the
  first request and an empty \<open>ReplacesCertID\<close>; the outcome is the one of the second call,
  so its error, an ARI conflict included, is returned and nothing more is tried. If
  \<open>err\<close> is any other error, one call is made and \<open>err\<close> is returned.
\<close>

theorem ari_conflict_retried_once:
  assumes "set_challenge_provider env request = (tr1, Inr u)"
      and "Obtain env 0 (first_request env request) = Inl err"
      and "sendObtainCertificateRequest env (Some request) = (tr, res)"
  shows "(errors_As_AlreadyReplaced err \<longrightarrow>
            obtain_calls tr = [first_request env request,
                               (first_request env request)\<lparr>ReplacesCertID := ''''\<rparr>]
            \<and> res = (case Obtain env 1 ((first_request env request)\<lparr>ReplacesCertID := ''''\<rparr>) of
                       Inl err' \<Rightarrow> Inl err'
                     | Inr resp \<Rightarrow> Inr (make_response env resp
                                          ((first_request env request)\<lparr>ReplacesCertID := ''''\<rparr>))))
       \<and> (\<not> errors_As_AlreadyReplaced err \<longrightarrow>
            obtain_calls tr = [first_request env request] \<and> res = Inl err)"
proof -
  from send_reaches_obtain [OF assms(3,1)] obtain tr2 where
    tr2: "obtain_with_retry env request = (tr2, res)" and calls: "obtain_calls tr = obtain_calls tr2"
    by blast
  from obtain_with_retry_cases [OF tr2] assms(2) calls show ?thesis
    by (auto simp: obtain_calls_simps)
qed

text \<open>
  Claim C6. The request of the first \<open>Obtain\<close> call is the one built from the
  \<open>ObtainCertificateRequest\<close>; its \<open>ReplacesCertID\<close> is \<open>ARIReplacesCertId\<close> when
  \<open>ARIReplacesAcctUrl\<close> equals the account URL of the client and the empty string
  otherwise. Every request that is sent carries that id or none, so with an
  \<open>ARIReplacesAcctUrl\<close> of another account no request carries an id.
\<close>

theorem replaces_id_only_for_own_account:
  assumes "sendObtainCertificateRequest env (Some request) = (tr, res)"
      and "r \<in> set (obtain_calls tr)"
  shows "hd (obtain_calls tr) = first_request env request
       \<and> ReplacesCertID (first_request env request)
           = (if ARIReplacesAcctUrl request = account_ACMEAcctUrl env
              then ARIReplacesCertId request else '''')
       \<and> (ReplacesCertID r = ReplacesCertID (first_request env request) \<or> ReplacesCertID r = '''')
       \<and> (ARIReplacesAcctUrl request \<noteq> account_ACMEAcctUrl env \<longrightarrow> ReplacesCertID r = '''')"
proof -
  obtain tr1 r1 where scp: "set_challenge_provider env request = (tr1, r1)"
    by (cases "set_challenge_provider env request")
  show ?thesis
  proof (cases r1)
    case (Inl e)
    from send_stops_before_obtain [OF assms(1) scp [unfolded Inl]] assms(2)
    show ?thesis by simp
  next
    case (Inr u)
    from send_reaches_obtain [OF assms(1) scp [unfolded Inr]] obtain tr2 where
      tr2: "obtain_with_retry env request = (tr2, res)"
      and calls: "obtain_calls tr = obtain_calls tr2" by blast
    have id: "ReplacesCertID (first_request env request)
           = (if ARIReplacesAcctUrl request = account_ACMEAcctUrl env
              then ARIReplacesCertId request else '''')"
      by (simp add: first_request_def)
    from obtain_with_retry_cases [OF tr2] assms(2) calls id show ?thesis
      by (auto simp: obtain_calls_simps)
  qed
qed

text \<open>
  Claim C10. In a successful call the last \<open>Obtain\<close> request is the one that the CA
  answered with the certificate, and \<open>ARIReplaced\<close> holds exactly when that request
  has a \<open>ReplacesCertID\<close>. It is false after the retry (the warning is in the trace), and
  false when \<open>ARIReplacesAcctUrl\<close> is not the account URL of the client.
\<close>

theorem ARIReplaced_iff_last_request:
  assumes "sendObtainCertificateRequest env (Some request) = (tr, Inr response)"
  shows "(ARIReplaced response \<longleftrightarrow> ReplacesCertID (last (obtain_calls tr)) \<noteq> '''')
       \<and> (\<exists>resp. Obtain env (length (obtain_calls tr) - 1) (last (obtain_calls tr)) = Inr resp
                  \<and> response = make_response env resp (last (obtain_calls tr)))
       \<and> (Warnf_ev ari_warning \<in> set tr \<longrightarrow> \<not> ARIReplaced response)
       \<and> (ARIReplacesAcctUrl request \<noteq> account_ACMEAcctUrl env \<longrightarrow> \<not> ARIReplaced response)"
proof -
  obtain tr1 r1 where scp: "set_challenge_provider env request = (tr1, r1)"
    by (cases "set_challenge_provider env request")
  show ?thesis
  proof (cases r1)
    case (Inl e)
    from send_stops_before_obtain [OF assms(1) scp [unfolded Inl]]
    show ?thesis by simp
  next
    case (Inr u)
    from send_reaches_obtain [OF assms(1) scp [unfolded Inr]] obtain tr2 where
      tr2: "obtain_with_retry env request = (tr2, Inr response)"
      and calls: "obtain_calls tr = obtain_calls tr2"
      and warn: "Warnf_ev ari_warning \<in> set tr \<longleftrightarrow> Warnf_ev ari_warning \<in> set tr2" by blast
    have id: "ReplacesCertID (first_request env request)
           = (if ARIReplacesAcctUrl request = account_ACMEAcctUrl env
              then ARIReplacesCertId request else '''')"
      by (simp add: first_request_def)
    from obtain_with_retry_cases [OF tr2] calls warn id show ?thesis
      by (auto simp: obtain_calls_simps make_response_def split: sum.splits)
  qed
qed


lemma demo_provider_installed:
  "set_challenge_provider (scripted_ca trim answers) (demo_request acct certId)
     = ([SetDNS01Provider_ev (ChallengeProvider ''demo'') []], Inr ())"
  by (simp add: set_challenge_provider_def scripted_ca_def demo_request_def CondOption_def)

lemma demo_first_request:
  "first_request (scripted_ca trim answers) (demo_request acct certId)
     = \<lparr> Domains_req = [''example.com''], Bundle = True, Profile = '''',
         NotAfter_req = time_Unix 0 0,
         ReplacesCertID = (if acct = ''https://ca.example/acct/1'' then certId else '''') \<rparr>"
  by (simp add: first_request_def scripted_ca_def demo_request_def)

text \<open>
  Witness for C5: a CA that answers with an ARI conflict twice, and a CA whose first
  answer is another error, with any function for \<open>strings.TrimSpace\<close>.
\<close>

theorem ari_conflict_retried_once_witness:
  "\<forall>trim.
   (obtain_calls (fst (sendObtainCertificateRequest
       (scripted_ca trim [Inl (AlreadyReplacedError ''replaced''),
                     Inl (Wrapped ''retry'' (AlreadyReplacedError ''replaced again''))])
       (Some (demo_request ''https://ca.example/acct/1'' ''abc''))))
     = [\<lparr> Domains_req = [''example.com''], Bundle = True, Profile = '''',
          NotAfter_req = time_Unix 0 0, ReplacesCertID = ''abc'' \<rparr>,
        \<lparr> Domains_req = [''example.com''], Bundle = True, Profile = '''',
          NotAfter_req = time_Unix 0 0, ReplacesCertID = '''' \<rparr>]
   \<and> snd (sendObtainCertificateRequest
       (scripted_ca trim [Inl (AlreadyReplacedError ''replaced''),
                     Inl (Wrapped ''retry'' (AlreadyReplacedError ''replaced again''))])
       (Some (demo_request ''https://ca.example/acct/1'' ''abc'')))
     = Inl (Wrapped ''retry'' (AlreadyReplacedError ''replaced again''))
   \<and> obtain_calls (fst (sendObtainCertificateRequest
       (scripted_ca trim [Inl (ErrorString ''rate limited''), Inr demo_resource])
       (Some (demo_request ''https://ca.example/acct/1'' ''abc''))))
     = [\<lparr> Domains_req = [''example.com''], Bundle = True, Profile = '''',
          NotAfter_req = time_Unix 0 0, ReplacesCertID = ''abc'' \<rparr>]
   \<and> snd (sendObtainCertificateRequest
       (scripted_ca trim [Inl (ErrorString ''rate limited''), Inr demo_resource])
       (Some (demo_request ''https://ca.example/acct/1'' ''abc'')))
     = Inl (ErrorString ''rate limited''))"
  (is "\<forall>trim. ?P trim")
proof
  fix trim :: "string \<Rightarrow> string"
  let ?ca1 = "scripted_ca trim [Inl (AlreadyReplacedError ''replaced''),
                           Inl (Wrapped ''retry'' (AlreadyReplacedError ''replaced again''))]"
  let ?ca2 = "scripted_ca trim [Inl (ErrorString ''rate limited''), Inr demo_resource]"
  let ?request = "demo_request ''https://ca.example/acct/1'' ''abc''"
  have a1: "Obtain ?ca1 0 (first_request ?ca1 ?request) = Inl (AlreadyReplacedError ''replaced'')"
   and a2: "Obtain ?ca2 0 (first_request ?ca2 ?request) = Inl (ErrorString ''rate limited'')"
    by (simp_all add: scripted_ca_def)
  have s: "sendObtainCertificateRequest ca (Some ?request)
             = (fst (sendObtainCertificateRequest ca (Some ?request)),
                snd (sendObtainCertificateRequest ca (Some ?request)))" for ca
    by simp
  have second: "Obtain ?ca1 (Suc 0) r
                  = Inl (Wrapped ''retry'' (AlreadyReplacedError ''replaced again''))"
    for r by (simp add: scripted_ca_def)
  from ari_conflict_retried_once [OF demo_provider_installed a1 s]
       ari_conflict_retried_once [OF demo_provider_installed a2 s]
  show "?P trim" by (simp add: demo_first_request second)
qed

text \<open>Witness for C6: a replacement of another account, and one of the own account.\<close>

theorem replaces_id_only_for_own_account_witness:
  "\<forall>trim.
   (ReplacesCertID (hd (obtain_calls (fst (sendObtainCertificateRequest
       (scripted_ca trim [Inr demo_resource])
       (Some (demo_request ''https://ca.example/acct/2'' ''abc''))))))
     = ''''
   \<and> ReplacesCertID (hd (obtain_calls (fst (sendObtainCertificateRequest
       (scripted_ca trim [Inr demo_resource])
       (Some (demo_request ''https://ca.example/acct/1'' ''abc''))))))
     = ''abc'')"
  (is "\<forall>trim. ?P trim")
proof
  fix trim :: "string \<Rightarrow> string"
  let ?ca = "scripted_ca trim [Inr demo_resource]"
  have s: "sendObtainCertificateRequest ?ca (Some (demo_request acct ''abc''))
             = (fst (sendObtainCertificateRequest ?ca (Some (demo_request acct ''abc''))),
                snd (sendObtainCertificateRequest ?ca (Some (demo_request acct ''abc''))))" for acct
    by simp
  have first: "Obtain ?ca 0 r = Inr demo_resource" for r
    by (simp add: scripted_ca_def)
  have calls: "obtain_calls (fst (sendObtainCertificateRequest ?ca (Some (demo_request acct ''abc''))))
                 = [first_request ?ca (demo_request acct ''abc'')]" for acct
    by (simp add: sendObtainCertificateRequest_def demo_provider_installed obtain_with_retry_def
          Let_def first obtain_calls_simps)
  have m: "first_request ?ca (demo_request acct ''abc'')
             \<in> set (obtain_calls (fst (sendObtainCertificateRequest ?ca
                                         (Some (demo_request acct ''abc'')))))" for acct
    by (simp add: calls)
  from replaces_id_only_for_own_account [OF s m, of "''https://ca.example/acct/2''"]
       replaces_id_only_for_own_account [OF s m, of "''https://ca.example/acct/1''"]
  show "?P trim" by (simp add: scripted_ca_def demo_request_def)
qed

text \<open>Witness for C10: the retry succeeds, and the response does not claim a replacement.\<close>

theorem ARIReplaced_iff_last_request_witness:
  "\<forall>trim.
   (\<not> ARIReplaced (make_response
         (scripted_ca trim [Inl (AlreadyReplacedError ''replaced''), Inr demo_resource])
         demo_resource
         \<lparr> Domains_req = [''example.com''], Bundle = True, Profile = '''',
           NotAfter_req = time_Unix 0 0, ReplacesCertID = '''' \<rparr>)
   \<and> snd (sendObtainCertificateRequest
            (scripted_ca trim [Inl (AlreadyReplacedError ''replaced''), Inr demo_resource])
            (Some (demo_request ''https://ca.example/acct/1'' ''abc'')))
       = Inr (make_response
         (scripted_ca trim [Inl (AlreadyReplacedError ''replaced''), Inr demo_resource])
         demo_resource
         \<lparr> Domains_req = [''example.com''], Bundle = True, Profile = '''',
           NotAfter_req = time_Unix 0 0, ReplacesCertID = '''' \<rparr>))"
  (is "\<forall>trim. ?P trim")
proof
  fix trim :: "string \<Rightarrow> string"
  let ?ca = "scripted_ca trim [Inl (AlreadyReplacedError ''replaced''), Inr demo_resource]"
  let ?request = "demo_request ''https://ca.example/acct/1'' ''abc''"
  let ?req' = "\<lparr> Domains_req = [''example.com''], Bundle = True, Profile = '''',
           NotAfter_req = time_Unix 0 0, ReplacesCertID = '''' \<rparr>"
  let ?tr = "[Setenv_ev ''LEGO_DISABLE_CNAME_SUPPORT'' ''false'',
              SetDNS01Provider_ev (ChallengeProvider ''demo'') [],
              Obtain_ev (?req'\<lparr> ReplacesCertID := ''abc'' \<rparr>),
              Warnf_ev ari_warning, Obtain_ev ?req']"
  have answers: "Obtain ?ca 0 r = Inl (AlreadyReplacedError ''replaced'')"
                "Obtain ?ca 1 r = Inr demo_resource" "Obtain ?ca (Suc 0) r = Inr demo_resource" for r
    by (simp_all add: scripted_ca_def)
  have run: "sendObtainCertificateRequest ?ca (Some ?request)
               = (?tr, Inr (make_response ?ca demo_resource ?req'))"
    by (simp add: sendObtainCertificateRequest_def demo_provider_installed obtain_with_retry_def
          Let_def demo_first_request answers)
       (simp add: demo_request_def FormatBool_def)
  have w: "Warnf_ev ari_warning \<in> set ?tr" by simp
  note all = ARIReplaced_iff_last_request [OF run]
  from all [THEN conjunct2, THEN conjunct2, THEN conjunct1, THEN mp, OF w] run
  show "?P trim" by simp
qed

section \<open>Properties of the SSL managers\<close>

lemma creates_simps:
  "creates_ao [] = 0"
  "creates_ao (ListCerts_ev q # tr) = creates_ao tr"
  "creates_ao (QueryCert_ev i # tr) = creates_ao tr"
  "creates_ao (CertificateExists_ev # tr) = creates_ao tr"
  "creates_ao (CreateCert_ev c # tr) = Suc (creates_ao tr)"
  "creates_ao (xs @ ys) = creates_ao xs + creates_ao ys"
  by (simp_all add: creates_ao_def)

lemma pages_simps:
  "pages_ao [] = []"
  "pages_ao (ListCerts_ev q # tr) = Page q # pages_ao tr"
  "pages_ao (QueryCert_ev i # tr) = pages_ao tr"
  "pages_ao (CertificateExists_ev # tr) = pages_ao tr"
  "pages_ao (CreateCert_ev c # tr) = pages_ao tr"
  "pages_ao (xs @ ys) = pages_ao xs @ pages_ao ys"
  by (simp_all add: pages_ao_def List.map_filter_def)

lemma check_record_quiet:
  "check_record env c pem r = (tr, out) \<Longrightarrow> creates_ao tr = 0 \<and> pages_ao tr = []"
  by (auto simp: check_record_def creates_simps pages_simps split: if_splits sum.splits)

lemma scan_records_quiet:
  "scan_records env c pem rs = (tr, out) \<Longrightarrow> creates_ao tr = 0 \<and> pages_ao tr = []"
proof (induction rs arbitrary: tr out)
  case Nil
  then show ?case by (simp add: creates_simps pages_simps)
next
  case (Cons r rs)
  obtain t1 o1 where c1: "check_record env c pem r = (t1, o1)"
    by (cases "check_record env c pem r")
  obtain t2 o2 where c2: "scan_records env c pem rs = (t2, o2)"
    by (cases "scan_records env c pem rs")
  from Cons.prems c1 c2 check_record_quiet [OF c1] Cons.IH [OF c2]
  show ?case by (cases o1) (auto simp: creates_simps pages_simps)
qed

lemma scan_records_passed_over:
  "list_all (passed_over env c pem) rs \<Longrightarrow> \<exists>tr. scan_records env c pem rs = (tr, None)"
proof (induction rs)
  case Nil
  show ?case by simp
next
  case (Cons r rs)
  then obtain tr where "scan_records env c pem rs = (tr, None)" by auto
  with Cons.prems show ?case
    by (cases "check_record env c pem r")
       (auto simp: passed_over_def split: candidate.splits)
qed

lemma scan_records_first_return:
  assumes "list_all (passed_over env c pem) pre"
      and "snd (check_record env c pem r) = Return res"
  shows "\<exists>tr. scan_records env c pem (pre @ r # post) = (tr, Some res)"
  using assms(1)
proof (induction pre)
  case Nil
  with assms(2) show ?case by (cases "check_record env c pem r") auto
next
  case (Cons x pre)
  then obtain tr where "scan_records env c pem (pre @ r # post) = (tr, Some res)" by auto
  with Cons.prems show ?case
    by (cases "check_record env c pem x")
       (auto simp: passed_over_def split: candidate.splits)
qed

lemma list_loop_full_page:
  assumes "\<not> ctxDone_ao env n" and "full_page_without_match env c pem pg"
  shows "\<exists>pre. creates_ao pre = 0 \<and> pages_ao pre = [pg] \<and>
           (\<forall>f. list_loop (Suc f) env c pem pg n =
                  (case list_loop f env c pem (pg + 1) (Suc n) of
                     None \<Rightarrow> None
                   | Some (tr, res) \<Rightarrow> Some (pre @ tr, res)))"
proof -
  from assms(2) obtain resp obj where l: "ListCerts env (page_req pg) = Inr resp"
    and o: "ReturnObj_list resp = Some obj" and len: "1000 \<le> length (Results obj)"
    and all: "list_all (passed_over env c pem) (Results obj)"
    by (auto simp: full_page_without_match_def split: sum.splits option.splits)
  from scan_records_passed_over [OF all] obtain tr where
    s: "scan_records env c pem (Results obj) = (tr, None)" by blast
  note q = scan_records_quiet [OF s]
  have "creates_ao (ListCerts_ev (page_req pg) # tr) = 0"
       "pages_ao (ListCerts_ev (page_req pg) # tr) = [pg]"
    using q by (simp_all add: creates_simps pages_simps page_req_def)
  moreover have "\<forall>f. list_loop (Suc f) env c pem pg n =
                  (case list_loop f env c pem (pg + 1) (Suc n) of
                     None \<Rightarrow> None
                   | Some (tr', res) \<Rightarrow> Some ((ListCerts_ev (page_req pg) # tr) @ tr', res))"
    using assms(1) l o len s
    by (auto simp: Let_def page_req_def split: option.splits)
  ultimately show ?thesis by blast
qed


lemma upt_shift_word:
  "map (\<lambda>i. (pg + 1 :: int32) + of_nat i) [0..<p] = map (\<lambda>i. pg + of_nat i) [Suc 0..<Suc p]"
proof -
  have "map (\<lambda>i. pg + of_nat i) [Suc 0..<Suc p] = map ((\<lambda>i. pg + of_nat i) \<circ> Suc) [0..<p]"
    by (simp only: map_Suc_upt [symmetric] map_map)
  also have "\<dots> = map (\<lambda>i. (pg + 1) + of_nat i) [0..<p]"
    by (simp add: comp_def add.assoc)
  finally show ?thesis by simp
qed

lemma list_loop_skip_pages:
  assumes "\<forall>i<p. \<not> ctxDone_ao env (n + i) \<and> full_page_without_match env c pem (pg + of_nat i)"
  shows "\<exists>pre. creates_ao pre = 0 \<and> pages_ao pre = map (\<lambda>i. pg + of_nat i) [0..<p] \<and>
           (\<forall>f. list_loop (p + f) env c pem pg n =
                  (case list_loop f env c pem (pg + of_nat p) (n + p) of
                     None \<Rightarrow> None
                   | Some (tr, res) \<Rightarrow> Some (pre @ tr, res)))"
  using assms
proof (induction p arbitrary: n pg)
  case 0
  have "creates_ao [] = 0 \<and> pages_ao [] = map (\<lambda>i. pg + of_nat i) [0..<0] \<and>
           (\<forall>f. list_loop (0 + f) env c pem pg n =
                  (case list_loop f env c pem (pg + of_nat 0) (n + 0) of
                     None \<Rightarrow> None
                   | Some (tr, res) \<Rightarrow> Some ([] @ tr, res)))"
    by (auto simp del: list_loop.simps simp: creates_simps pages_simps split: option.splits)
  then show ?case by (rule exI)
next
  case (Suc p)
  from Suc.prems [rule_format, of 0]
  have here: "\<not> ctxDone_ao env n" "full_page_without_match env c pem pg" by simp_all
  from list_loop_full_page [OF here] obtain pre1 where pre1:
    "creates_ao pre1 = 0 \<and> pages_ao pre1 = [pg] \<and>
           (\<forall>f. list_loop (Suc f) env c pem pg n =
                  (case list_loop f env c pem (pg + 1) (Suc n) of
                     None \<Rightarrow> None
                   | Some (tr, res) \<Rightarrow> Some (pre1 @ tr, res)))" ..
  have "\<forall>i<p. \<not> ctxDone_ao env (Suc n + i) \<and>
               full_page_without_match env c pem ((pg + 1) + of_nat i)"
  proof (intro allI impI)
    fix i assume "i < p"
    with Suc.prems [rule_format, of "Suc i"]
    show "\<not> ctxDone_ao env (Suc n + i) \<and>
               full_page_without_match env c pem ((pg + 1) + of_nat i)"
      by (simp add: ac_simps)
  qed
  from Suc.IH [OF this] obtain pre2 where pre2:
    "creates_ao pre2 = 0 \<and> pages_ao pre2 = map (\<lambda>i. (pg + 1) + of_nat i) [0..<p] \<and>
           (\<forall>f. list_loop (p + f) env c pem (pg + 1) (Suc n) =
                  (case list_loop f env c pem ((pg + 1) + of_nat p) (Suc n + p) of
                     None \<Rightarrow> None
                   | Some (tr, res) \<Rightarrow> Some (pre2 @ tr, res)))" ..
  have a: "creates_ao (pre1 @ pre2) = 0"
    using pre1 pre2 by (simp add: creates_simps)
  have "pages_ao (pre1 @ pre2) = pg # map (\<lambda>i. pg + of_nat i) [Suc 0..<Suc p]"
    using pre1 pre2 by (simp only: pages_simps upt_shift_word append.simps)
  also have "\<dots> = map (\<lambda>i. pg + of_nat i) [0..<Suc p]"
    by (simp add: upt_conv_Cons del: upt_Suc)
  finally have b: "pages_ao (pre1 @ pre2) = map (\<lambda>i. pg + of_nat i) [0..<Suc p]" .
  have c: "\<forall>f. list_loop (Suc p + f) env c pem pg n =
                  (case list_loop f env c pem (pg + of_nat (Suc p)) (n + Suc p) of
                     None \<Rightarrow> None
                   | Some (tr, res) \<Rightarrow> Some ((pre1 @ pre2) @ tr, res))"
  proof
    fix f
    have e1: "list_loop (Suc p + f) env c pem pg n = list_loop (Suc (p + f)) env c pem pg n"
      by (simp del: list_loop.simps)
    have e2: "list_loop (Suc (p + f)) env c pem pg n =
            (case list_loop (p + f) env c pem (pg + 1) (Suc n) of
                     None \<Rightarrow> None
                   | Some (tr, res) \<Rightarrow> Some (pre1 @ tr, res))"
      using pre1 by blast
    have e3: "list_loop (p + f) env c pem (pg + 1) (Suc n) =
                  (case list_loop f env c pem ((pg + 1) + of_nat p) (Suc n + p) of
                     None \<Rightarrow> None
                   | Some (tr, res) \<Rightarrow> Some (pre2 @ tr, res))"
      using pre2 by blast
    have e4: "(pg + 1) + of_nat p = pg + of_nat (Suc p)" "Suc n + p = n + Suc p"
      by (simp_all add: ac_simps)
    show "list_loop (Suc p + f) env c pem pg n =
                  (case list_loop f env c pem (pg + of_nat (Suc p)) (n + Suc p) of
                     None \<Rightarrow> None
                   | Some (tr, res) \<Rightarrow> Some ((pre1 @ pre2) @ tr, res))"
      unfolding e1 e2 e3 e4 by (simp del: list_loop.simps split: option.splits)
  qed
  from a b c show ?case by blast
qed

lemma list_loop_return_on_page:
  assumes "\<not> ctxDone_ao env n"
      and "ListCerts env (page_req pg) = Inr resp"
      and "ReturnObj_list resp = Some obj"
      and "Results obj = pre @ r # post"
      and "list_all (passed_over env c pem) pre"
      and "snd (check_record env c pem r) = Return res"
  shows "\<exists>tr. list_loop (Suc f) env c pem pg n = Some (tr, Some res)
             \<and> creates_ao tr = 0 \<and> pages_ao tr = [pg]"
proof -
  from scan_records_first_return [OF assms(5,6)] obtain tr where
    s: "scan_records env c pem (pre @ r # post) = (tr, Some res)" by blast
  note q = scan_records_quiet [OF s]
  have "list_loop (Suc f) env c pem pg n = Some (ListCerts_ev (page_req pg) # tr, Some res)"
    using assms(1-4) s by (simp add: Let_def page_req_def)
  moreover have "creates_ao (ListCerts_ev (page_req pg) # tr) = 0"
       "pages_ao (ListCerts_ev (page_req pg) # tr) = [pg]"
    using q by (simp_all add: creates_simps pages_simps page_req_def)
  ultimately show ?thesis by blast
qed

lemma Upload_ao_first_return:
  assumes "ParseCertificateFromPEM env certPEM = Inr c"
      and "\<forall>i<p. \<not> ctxDone_ao env i \<and> full_page_without_match env c certPEM (1 + of_nat i)"
      and "\<not> ctxDone_ao env p"
      and "ListCerts env (page_req (1 + of_nat p)) = Inr resp"
      and "ReturnObj_list resp = Some obj"
      and "Results obj = pre @ r # post"
      and "list_all (passed_over env c certPEM) pre"
      and "snd (check_record env c certPEM r) = Return res"
      and "p < fuel"
  shows "\<exists>tr. Upload_ao fuel env certPEM privkeyPEM = Some (tr, res)
             \<and> creates_ao tr = 0 \<and> pages_ao tr = map (\<lambda>i. 1 + of_nat i) [0..<Suc p]"
proof -
  from assms(2) have "\<forall>i<p. \<not> ctxDone_ao env (0 + i)
                        \<and> full_page_without_match env c certPEM (1 + of_nat i)" by simp
  from list_loop_skip_pages [OF this] obtain pre1 where pre1:
    "creates_ao pre1 = 0 \<and> pages_ao pre1 = map (\<lambda>i. 1 + of_nat i) [0..<p] \<and>
           (\<forall>f. list_loop (p + f) env c certPEM 1 0 =
                  (case list_loop f env c certPEM (1 + of_nat p) (0 + p) of
                     None \<Rightarrow> None
                   | Some (tr, res) \<Rightarrow> Some (pre1 @ tr, res)))" ..
  define f where "f = fuel - Suc p"
  from \<open>p < fuel\<close> have fuel: "fuel = p + Suc f" by (simp add: f_def)
  from assms(3) have ctx: "\<not> ctxDone_ao env (0 + p)" by simp
  from list_loop_return_on_page [OF ctx assms(4-8), of f] obtain tr2 where
    tr2: "list_loop (Suc f) env c certPEM (1 + of_nat p) (0 + p) = Some (tr2, Some res)"
         "creates_ao tr2 = 0" "pages_ao tr2 = [1 + of_nat p]" by blast
  have "list_loop (p + Suc f) env c certPEM 1 0 =
                  (case list_loop (Suc f) env c certPEM (1 + of_nat p) (0 + p) of
                     None \<Rightarrow> None
                   | Some (tr, res) \<Rightarrow> Some (pre1 @ tr, res))"
    using pre1 by blast
  then have loop: "list_loop fuel env c certPEM 1 0 = Some (pre1 @ tr2, Some res)"
    unfolding fuel tr2(1) by simp
  have "Upload_ao fuel env certPEM privkeyPEM = Some (pre1 @ tr2, res)"
    using assms(1) loop by (simp add: Upload_ao_def)
  moreover have "creates_ao (pre1 @ tr2) = 0"
    using pre1 tr2(2) by (simp add: creates_simps)
  moreover have "pages_ao (pre1 @ tr2) = map (\<lambda>i. 1 + of_nat i) [0..<Suc p]"
    using pre1 tr2(3) by (simp add: pages_simps)
  ultimately show ?thesis by blast
qed


lemma list_loop_quiet:
  "list_loop fuel env c pem pg n = Some (tr, out) \<Longrightarrow> creates_ao tr = 0"
proof (induction fuel arbitrary: pg n tr out)
  case 0
  then show ?case by simp
next
  case (Suc fuel)
  show ?case
  proof (cases "ctxDone_ao env n")
    case True
    with Suc.prems show ?thesis by (simp add: creates_simps)
  next
    case ctx: False
    show ?thesis
    proof (cases "ListCerts env (page_req pg)")
      case (Inl err)
      with Suc.prems ctx show ?thesis
        by (auto simp: Let_def page_req_def creates_simps)
    next
      case (Inr resp)
      obtain t1 o1 where s: "(case ReturnObj_list resp of None \<Rightarrow> ([], None)
              | Some obj \<Rightarrow> scan_records env c pem (Results obj)) = (t1, o1)"
        by (cases "(case ReturnObj_list resp of None \<Rightarrow> ([], None)
              | Some obj \<Rightarrow> scan_records env c pem (Results obj))")
      have q: "creates_ao t1 = 0"
      proof (cases "ReturnObj_list resp")
        case None
        with s show ?thesis by (simp add: creates_simps)
      next
        case (Some obj)
        with s scan_records_quiet [of env c pem "Results obj" t1 o1] show ?thesis by simp
      qed
      show ?thesis
      proof (cases o1)
        case (Some res)
        with Suc.prems ctx Inr s q show ?thesis
          by (auto simp: Let_def page_req_def creates_simps)
      next
        case None
        show ?thesis
        proof (cases "case ReturnObj_list resp of None \<Rightarrow> True
                       | Some obj \<Rightarrow> length (Results obj) < 1000")
          case True
          with Suc.prems ctx Inr s q None show ?thesis
            by (auto simp: Let_def page_req_def creates_simps)
        next
          case False
          with Suc.prems ctx Inr s None obtain t2 where
            rest: "list_loop fuel env c pem (pg + 1) (Suc n) = Some (t2, out)"
            and tr: "tr = ListCerts_ev (page_req pg) # t1 @ t2"
            by (auto simp: Let_def page_req_def split: option.splits)
          from Suc.IH [OF rest] q tr show ?thesis by (simp add: creates_simps)
        qed
      qed
    qed
  qed
qed

lemma find_first:
  "list_all (\<lambda>x. \<not> P x) pre \<Longrightarrow> P r \<Longrightarrow> find P (pre @ r # post) = Some r"
  by (induction pre) auto

lemma find_none: "list_all (\<lambda>x. \<not> P x) xs \<Longrightarrow> find P xs = None"
  by (induction xs) auto

lemma check_record_match:
  assumes "EqualFold env (Subject_CommonName c) (CN r)" and "DNSNames c = SANs r"
      and "NotBefore c = time_Unix (IssueTime r) 0" and "NotAfter c = time_Unix (ExpiresTime r) 0"
      and "QueryCert env (Id_rec r) = Inr q"
  shows "check_record env c pem r =
           (case detail_of q of
              None \<Rightarrow> ([QueryCert_ev (Id_rec r), CertificateExists_ev], Return (Inl NilDereference))
            | Some d \<Rightarrow>
                if EqualCertificatesFromPEM env pem (Certs d)
                then ([QueryCert_ev (Id_rec r), CertificateExists_ev],
                      Return (Inr \<lparr> CertId = decimal_int (Id_detail d), CertName = Name_detail d \<rparr>))
                else ([QueryCert_ev (Id_rec r)], Continue Content_differs))"
  using assms by (simp add: check_record_def split: option.splits)

lemma scan_records_none_passed_over:
  "scan_records env c pem rs = (tr, None) \<Longrightarrow> list_all (passed_over env c pem) rs"
proof (induction rs arbitrary: tr)
  case Nil
  show ?case by simp
next
  case (Cons r rs)
  obtain t1 o1 where c1: "check_record env c pem r = (t1, o1)"
    by (cases "check_record env c pem r")
  obtain t2 o2 where c2: "scan_records env c pem rs = (t2, o2)"
    by (cases "scan_records env c pem rs")
  from Cons.prems c1 c2 have "o2 = None" and "passed_over env c pem r"
    by (cases o1; simp add: passed_over_def)+
  with Cons.IH [of t2] c2 show ?case by simp
qed

lemma list_loop_break_passed_over:
  assumes "list_loop fuel env c pem pg n = Some (tr, None)"
      and "pg' \<in> set (pages_ao tr)"
      and "ListCerts env (page_req pg') = Inr resp" and "ReturnObj_list resp = Some obj"
  shows "list_all (passed_over env c pem) (Results obj)"
  using assms(1,2)
proof (induction fuel arbitrary: pg n tr)
  case 0
  then show ?case by simp
next
  case (Suc fuel)
  from Suc.prems(1) have ctx: "\<not> ctxDone_ao env n"
    by (auto split: if_splits)
  from Suc.prems(1) ctx obtain resp0 where l: "ListCerts env (page_req pg) = Inr resp0"
    by (cases "ListCerts env (page_req pg)") (auto simp: Let_def page_req_def)
  obtain t1 o1 where s: "(case ReturnObj_list resp0 of None \<Rightarrow> ([], None)
          | Some obj \<Rightarrow> scan_records env c pem (Results obj)) = (t1, o1)"
    by (cases "(case ReturnObj_list resp0 of None \<Rightarrow> ([], None)
          | Some obj \<Rightarrow> scan_records env c pem (Results obj))")
  from Suc.prems(1) ctx l s have o1: "o1 = None"
    by (cases o1) (auto simp: Let_def page_req_def)
  have q: "pages_ao t1 = []"
  proof (cases "ReturnObj_list resp0")
    case None
    with s show ?thesis by (simp add: pages_simps)
  next
    case (Some obj0)
    with s scan_records_quiet [of env c pem "Results obj0" t1 o1] show ?thesis by simp
  qed
  have here: "pg' = pg \<Longrightarrow> list_all (passed_over env c pem) (Results obj)"
  proof -
    assume "pg' = pg"
    with assms(3,4) l have "ReturnObj_list resp0 = Some obj" by simp
    with s o1 have "scan_records env c pem (Results obj) = (t1, None)" by simp
    then show ?thesis by (rule scan_records_none_passed_over)
  qed
  show ?case
  proof (cases "case ReturnObj_list resp0 of None \<Rightarrow> True
                 | Some obj \<Rightarrow> length (Results obj) < 1000")
    case True
    with Suc.prems(1) ctx l s o1 have "tr = ListCerts_ev (page_req pg) # t1"
      by (auto simp: Let_def page_req_def)
    with Suc.prems(2) q have "pg' = pg" by (simp add: pages_simps page_req_def)
    then show ?thesis by (rule here)
  next
    case False
    with Suc.prems(1) ctx l s o1 obtain t2 where
      rest: "list_loop fuel env c pem (pg + 1) (Suc n) = Some (t2, None)"
      and tr: "tr = ListCerts_ev (page_req pg) # t1 @ t2"
      by (auto simp: Let_def page_req_def split: option.splits)
    from Suc.prems(2) tr q have "pg' = pg \<or> pg' \<in> set (pages_ao t2)"
      by (auto simp: pages_simps page_req_def)
    then show ?thesis
    proof
      assume "pg' = pg" then show ?thesis by (rule here)
    next
      assume "pg' \<in> set (pages_ao t2)"
      from Suc.IH [OF rest this] show ?thesis .
    qed
  qed
qed

lemma Upload_ao_create_only_after_break:
  assumes "Upload_ao fuel env certPEM privkeyPEM = Some (tr, res)"
      and "ParseCertificateFromPEM env certPEM = Inr c"
      and "creates_ao tr \<noteq> 0"
  shows "\<exists>tr0. list_loop fuel env c certPEM 1 0 = Some (tr0, None) \<and> pages_ao tr = pages_ao tr0"
proof (cases "list_loop fuel env c certPEM 1 0")
  case None
  with assms(1,2) show ?thesis by (simp add: Upload_ao_def)
next
  case (Some p)
  obtain tr0 out where p: "p = (tr0, out)" by (cases p)
  show ?thesis
  proof (cases out)
    case (Some r)
    with assms(1,2) \<open>list_loop fuel env c certPEM 1 0 = Some p\<close> p
    have "tr = tr0" by (simp add: Upload_ao_def)
    with list_loop_quiet [of fuel env c certPEM 1 0 tr0 out]
         \<open>list_loop fuel env c certPEM 1 0 = Some p\<close> p assms(3)
    show ?thesis by simp
  next
    case None
    obtain t' r' where cr: "create_ao env certPEM privkeyPEM = (t', r')"
      by (cases "create_ao env certPEM privkeyPEM")
    then have "pages_ao t' = []"
      by (auto simp: create_ao_def Let_def pages_simps split: sum.splits option.splits)
    with assms(1,2) \<open>list_loop fuel env c certPEM 1 0 = Some p\<close> p None cr
    show ?thesis by (auto simp: Upload_ao_def pages_simps)
  qed
qed

lemma Upload_ao_no_create_after_return:
  assumes "Upload_ao fuel env certPEM privkeyPEM = Some (tr, res)"
      and "ParseCertificateFromPEM env certPEM = Inr c"
      and "pg \<in> set (pages_ao tr)"
      and "ListCerts env (page_req pg) = Inr resp" and "ReturnObj_list resp = Some obj"
      and "x \<in> set (Results obj)" and "\<not> passed_over env c certPEM x"
  shows "creates_ao tr = 0"
proof (rule ccontr)
  assume "creates_ao tr \<noteq> 0"
  from Upload_ao_create_only_after_break [OF assms(1,2) this] obtain tr0 where
    brk: "list_loop fuel env c certPEM 1 0 = Some (tr0, None)" and pg: "pages_ao tr = pages_ao tr0"
    by blast
  from assms(3) pg have "pg \<in> set (pages_ao tr0)" by simp
  from list_loop_break_passed_over [OF brk this assms(4,5)] assms(6,7)
  show False by (simp add: list_all_iff)
qed

lemma Upload_elb_no_create_when_listed:
  assumes "ListCertificates envb (RegionId config) = Inr records"
      and "x \<in> set records" and "EqualCertificatesFromPEM_elb envb certPEM (Certificate x)"
  shows "CreateCertificate_ev req \<notin> set (fst (Upload_elb envb config certPEM privkeyPEM))"
proof -
  from assms(2,3)
  have "find (\<lambda>r. EqualCertificatesFromPEM_elb envb certPEM (Certificate r)) records \<noteq> None"
    by (auto simp: find_None_iff)
  with assms(1) show ?thesis
    by (auto simp: Upload_elb_def)
qed

text \<open>
  Claim C3. \<^emph>\<open>ctcccloudelb\<close>: when the list call answers and \<open>rb\<close> is the first
  listed record whose certificate equals the uploaded one, \<open>Upload\<close> returns the \<open>ID\<close>
  and \<open>Name\<close> of \<open>rb\<close> after the list call alone; and whenever a listed record equals
  the uploaded certificate, no create call is made. \<^emph>\<open>ctcccloudao\<close>: when the
  pages before page \<open>p + 1\<close> are full pages whose records are all passed over, the
  context is not done, and on page \<open>p + 1\<close> the records before \<open>r\<close> are passed over
  while \<open>r\<close> passes the four metadata checks and its detail \<open>d\<close> is fetched and has
  the uploaded content, \<open>Upload\<close> returns the id and the name of \<open>d\<close>, calls
  \<open>CreateCert\<close> never, and has fetched the pages \<open>1, \<dots>, p + 1\<close> and no other; and
  in every run, when a record of a fetched page is not passed over (it matches, or its
  check ends the upload), no create call is made.
\<close>

theorem Upload_returns_first_match:
  "(ListCertificates envb (RegionId config) = Inr (preb @ rb # postb)
      \<and> list_all (\<lambda>x. \<not> EqualCertificatesFromPEM_elb envb certPEM (Certificate x)) preb
      \<and> EqualCertificatesFromPEM_elb envb certPEM (Certificate rb)
    \<longrightarrow> Upload_elb envb config certPEM privkeyPEM
          = ([ListCertificates_ev (RegionId config), CertificateExists_elb_ev],
             Inr \<lparr> CertId = ID rb, CertName = Name rb \<rparr>))
   \<and> (ListCertificates envb (RegionId config) = Inr records
      \<and> xb \<in> set records \<and> EqualCertificatesFromPEM_elb envb certPEM (Certificate xb)
    \<longrightarrow> CreateCertificate_ev reqb \<notin> set (fst (Upload_elb envb config certPEM privkeyPEM)))
   \<and> (Upload_ao fuel env certPEM privkeyPEM = Some (tr', res')
      \<and> ParseCertificateFromPEM env certPEM = Inr c
      \<and> pg \<in> set (pages_ao tr')
      \<and> ListCerts env (page_req pg) = Inr \<lparr> ReturnObj_list = Some obj \<rparr>
      \<and> x \<in> set (Results obj) \<and> \<not> passed_over env c certPEM x
    \<longrightarrow> creates_ao tr' = 0)
   \<and> (ParseCertificateFromPEM env certPEM = Inr c
      \<and> (\<forall>i<p. \<not> ctxDone_ao env i \<and> full_page_without_match env c certPEM (1 + of_nat i))
      \<and> \<not> ctxDone_ao env p
      \<and> ListCerts env (page_req (1 + of_nat p))
          = Inr \<lparr> ReturnObj_list = Some \<lparr> Results = pre @ r # post \<rparr> \<rparr>
      \<and> list_all (passed_over env c certPEM) pre
      \<and> EqualFold env (Subject_CommonName c) (CN r) \<and> DNSNames c = SANs r
      \<and> NotBefore c = time_Unix (IssueTime r) 0 \<and> NotAfter c = time_Unix (ExpiresTime r) 0
      \<and> QueryCert env (Id_rec r) = Inr \<lparr> ReturnObj_query = Some \<lparr> Result = Some d \<rparr> \<rparr>
      \<and> EqualCertificatesFromPEM env certPEM (Certs d)
      \<and> p < fuel
    \<longrightarrow> (\<exists>tr. Upload_ao fuel env certPEM privkeyPEM
                 = Some (tr, Inr \<lparr> CertId = decimal_int (Id_detail d), CertName = Name_detail d \<rparr>)
              \<and> creates_ao tr = 0 \<and> pages_ao tr = map (\<lambda>i. 1 + of_nat i) [0..<Suc p]))"
proof (intro conjI impI)
  assume a: "ListCertificates envb (RegionId config) = Inr (preb @ rb # postb)
      \<and> list_all (\<lambda>x. \<not> EqualCertificatesFromPEM_elb envb certPEM (Certificate x)) preb
      \<and> EqualCertificatesFromPEM_elb envb certPEM (Certificate rb)"
  then have "find (\<lambda>x. EqualCertificatesFromPEM_elb envb certPEM (Certificate x))
               (preb @ rb # postb) = Some rb"
    using find_first [of "\<lambda>x. EqualCertificatesFromPEM_elb envb certPEM (Certificate x)" preb rb postb]
    by simp
  with a show "Upload_elb envb config certPEM privkeyPEM
          = ([ListCertificates_ev (RegionId config), CertificateExists_elb_ev],
             Inr \<lparr> CertId = ID rb, CertName = Name rb \<rparr>)"
    by (simp add: Upload_elb_def)
next
  assume "ListCertificates envb (RegionId config) = Inr records
      \<and> xb \<in> set records \<and> EqualCertificatesFromPEM_elb envb certPEM (Certificate xb)"
  then show "CreateCertificate_ev reqb \<notin> set (fst (Upload_elb envb config certPEM privkeyPEM))"
    using Upload_elb_no_create_when_listed [of envb config records xb certPEM reqb privkeyPEM]
    by simp
next
  assume "Upload_ao fuel env certPEM privkeyPEM = Some (tr', res')
      \<and> ParseCertificateFromPEM env certPEM = Inr c
      \<and> pg \<in> set (pages_ao tr')
      \<and> ListCerts env (page_req pg) = Inr \<lparr> ReturnObj_list = Some obj \<rparr>
      \<and> x \<in> set (Results obj) \<and> \<not> passed_over env c certPEM x"
  then show "creates_ao tr' = 0"
    using Upload_ao_no_create_after_return [of fuel env certPEM privkeyPEM tr' res' c pg
            "\<lparr> ReturnObj_list = Some obj \<rparr>" obj x]
    by simp
next
  assume a: "ParseCertificateFromPEM env certPEM = Inr c
      \<and> (\<forall>i<p. \<not> ctxDone_ao env i \<and> full_page_without_match env c certPEM (1 + of_nat i))
      \<and> \<not> ctxDone_ao env p
      \<and> ListCerts env (page_req (1 + of_nat p))
          = Inr \<lparr> ReturnObj_list = Some \<lparr> Results = pre @ r # post \<rparr> \<rparr>
      \<and> list_all (passed_over env c certPEM) pre
      \<and> EqualFold env (Subject_CommonName c) (CN r) \<and> DNSNames c = SANs r
      \<and> NotBefore c = time_Unix (IssueTime r) 0 \<and> NotAfter c = time_Unix (ExpiresTime r) 0
      \<and> QueryCert env (Id_rec r) = Inr \<lparr> ReturnObj_query = Some \<lparr> Result = Some d \<rparr> \<rparr>
      \<and> EqualCertificatesFromPEM env certPEM (Certs d)
      \<and> p < fuel"
  then have q: "QueryCert env (Id_rec r) = Inr \<lparr> ReturnObj_query = Some \<lparr> Result = Some d \<rparr> \<rparr>"
    by simp
  have f8: "snd (check_record env c certPEM r)
          = Return (Inr \<lparr> CertId = decimal_int (Id_detail d), CertName = Name_detail d \<rparr>)"
    using a check_record_match [OF _ _ _ _ q, of c certPEM] by (simp add: detail_of_def)
  have f5: "ReturnObj_list \<lparr> ReturnObj_list = Some \<lparr> Results = pre @ r # post \<rparr> \<rparr>
                   = Some \<lparr> Results = pre @ r # post \<rparr>"
   and f6: "Results \<lparr> Results = pre @ r # post \<rparr> = pre @ r # post"
    by simp_all
  from a have f1: "ParseCertificateFromPEM env certPEM = Inr c"
    and f2: "\<forall>i<p. \<not> ctxDone_ao env i \<and> full_page_without_match env c certPEM (1 + of_nat i)"
    and f3: "\<not> ctxDone_ao env p"
    and f4: "ListCerts env (page_req (1 + of_nat p))
          = Inr \<lparr> ReturnObj_list = Some \<lparr> Results = pre @ r # post \<rparr> \<rparr>"
    and f7: "list_all (passed_over env c certPEM) pre" and f9: "p < fuel"
    by simp_all
  show "\<exists>tr. Upload_ao fuel env certPEM privkeyPEM
                 = Some (tr, Inr \<lparr> CertId = decimal_int (Id_detail d), CertName = Name_detail d \<rparr>)
              \<and> creates_ao tr = 0 \<and> pages_ao tr = map (\<lambda>i. 1 + of_nat i) [0..<Suc p]"
    by (rule Upload_ao_first_return [OF f1 f2 f3 f4 f5 f6 f7 f8 f9])
qed

text \<open>
  Claim C4. The body of the inner loop leaves by its first \<open>continue\<close> exactly when
  the common names are not equal under \<open>strings.EqualFold\<close>, the case-insensitive
  comparison of the library, by the second exactly when they are and the SAN
  lists differ (as lists: an entry or the order), by the third and fourth exactly when
  all before agrees and \<open>NotBefore\<close>, respectively \<open>NotAfter\<close>, is not the whole
  second \<open>IssueTime\<close>, respectively \<open>ExpiresTime\<close>. It makes no vendor call exactly
  when one of the four differs; when it makes one, the first is \<open>QueryCert\<close> for the
  record. The contents are compared only on the fetched detail. A record whose SAN list
  differs is passed over without a call.
\<close>

theorem check_record_prefilter:
  "(snd (check_record env c pem r) = Continue CN_differs
      \<longleftrightarrow> \<not> EqualFold env (Subject_CommonName c) (CN r))
   \<and> (snd (check_record env c pem r) = Continue SANs_differ
      \<longleftrightarrow> EqualFold env (Subject_CommonName c) (CN r) \<and> DNSNames c \<noteq> SANs r)
   \<and> (snd (check_record env c pem r) = Continue NotBefore_differs
      \<longleftrightarrow> EqualFold env (Subject_CommonName c) (CN r) \<and> DNSNames c = SANs r
          \<and> NotBefore c \<noteq> time_Unix (IssueTime r) 0)
   \<and> (snd (check_record env c pem r) = Continue NotAfter_differs
      \<longleftrightarrow> EqualFold env (Subject_CommonName c) (CN r) \<and> DNSNames c = SANs r
          \<and> NotBefore c = time_Unix (IssueTime r) 0 \<and> NotAfter c \<noteq> time_Unix (ExpiresTime r) 0)
   \<and> (fst (check_record env c pem r) = []
      \<longleftrightarrow> \<not> (EqualFold env (Subject_CommonName c) (CN r) \<and> DNSNames c = SANs r
             \<and> NotBefore c = time_Unix (IssueTime r) 0 \<and> NotAfter c = time_Unix (ExpiresTime r) 0))
   \<and> (fst (check_record env c pem r) \<noteq> []
      \<longrightarrow> hd (fst (check_record env c pem r)) = QueryCert_ev (Id_rec r))
   \<and> (snd (check_record env c pem r) = Continue Content_differs
      \<longleftrightarrow> EqualFold env (Subject_CommonName c) (CN r) \<and> DNSNames c = SANs r
          \<and> NotBefore c = time_Unix (IssueTime r) 0 \<and> NotAfter c = time_Unix (ExpiresTime r) 0
          \<and> (\<exists>q d. QueryCert env (Id_rec r) = Inr q \<and> detail_of q = Some d
                    \<and> \<not> EqualCertificatesFromPEM env pem (Certs d)))
   \<and> (DNSNames c \<noteq> SANs r
      \<longrightarrow> fst (check_record env c pem r) = []
          \<and> (snd (check_record env c pem r) = Continue CN_differs
             \<or> snd (check_record env c pem r) = Continue SANs_differ))"
  by (auto simp: check_record_def split: sum.splits option.splits)

lemma digit_char_simps:
  "digit_char 0 = CHR ''0''" "digit_char 1 = CHR ''1''" "digit_char 2 = CHR ''2''"
  "digit_char 3 = CHR ''3''" "digit_char 4 = CHR ''4''" "digit_char 5 = CHR ''5''"
  "digit_char 6 = CHR ''6''" "digit_char 7 = CHR ''7''" "digit_char 8 = CHR ''8''"
  "digit_char 9 = CHR ''9''" "digit_char (Suc 0) = CHR ''1''"
  unfolding digit_char_def by (simp_all add: char_of_def bit_iff_odd)

lemma fold_examples:
  "ascii_EqualFold ''Example.COM'' ''EXAMPLE.com''"
  "ascii_EqualFold ''Example.COM'' ''example.com''"
  "\<not> ascii_EqualFold ''Example.COM'' ''other.example''"
  by code_simp+

lemma list_loop_last_page:
  assumes "\<not> ctxDone_ao env n" and "last_page_without_match env c pem pg"
  shows "\<exists>tr. list_loop (Suc f) env c pem pg n = Some (tr, None)
             \<and> creates_ao tr = 0 \<and> pages_ao tr = [pg]"
proof -
  from assms(2) obtain resp where l: "ListCerts env (page_req pg) = Inr resp"
    by (cases "ListCerts env (page_req pg)") (auto simp: last_page_without_match_def)
  show ?thesis
  proof (cases "ReturnObj_list resp")
    case None
    with assms(1) l have "list_loop (Suc f) env c pem pg n = Some ([ListCerts_ev (page_req pg)], None)"
      by (simp add: Let_def page_req_def)
    then show ?thesis by (simp add: creates_simps pages_simps page_req_def)
  next
    case (Some obj)
    with assms(2) l have len: "length (Results obj) < 1000"
      and all: "list_all (passed_over env c pem) (Results obj)"
      by (simp_all add: last_page_without_match_def)
    from scan_records_passed_over [OF all] obtain tr where
      s: "scan_records env c pem (Results obj) = (tr, None)" by blast
    note q = scan_records_quiet [OF s]
    from assms(1) l Some len s
    have "list_loop (Suc f) env c pem pg n = Some (ListCerts_ev (page_req pg) # tr, None)"
      by (simp add: Let_def page_req_def)
    with q show ?thesis by (simp add: creates_simps pages_simps page_req_def)
  qed
qed

lemma list_loop_exhausted:
  assumes "\<forall>i<p. \<not> ctxDone_ao env i \<and> full_page_without_match env c certPEM (1 + of_nat i)"
      and "\<not> ctxDone_ao env p"
      and "last_page_without_match env c certPEM (1 + of_nat p)"
      and "p < fuel"
  shows "\<exists>tr0. list_loop fuel env c certPEM 1 0 = Some (tr0, None)
             \<and> creates_ao tr0 = 0 \<and> pages_ao tr0 = map (\<lambda>i. 1 + of_nat i) [0..<Suc p]"
proof -
  from assms(1) have "\<forall>i<p. \<not> ctxDone_ao env (0 + i)
                        \<and> full_page_without_match env c certPEM (1 + of_nat i)" by simp
  from list_loop_skip_pages [OF this] obtain pre1 where pre1:
    "creates_ao pre1 = 0 \<and> pages_ao pre1 = map (\<lambda>i. 1 + of_nat i) [0..<p] \<and>
           (\<forall>f. list_loop (p + f) env c certPEM 1 0 =
                  (case list_loop f env c certPEM (1 + of_nat p) (0 + p) of
                     None \<Rightarrow> None
                   | Some (tr, res) \<Rightarrow> Some (pre1 @ tr, res)))" ..
  define f where "f = fuel - Suc p"
  from \<open>p < fuel\<close> have fuel: "fuel = p + Suc f" by (simp add: f_def)
  from assms(2) have ctx: "\<not> ctxDone_ao env (0 + p)" by simp
  from list_loop_last_page [OF ctx assms(3), of f] obtain tr2 where
    tr2: "list_loop (Suc f) env c certPEM (1 + of_nat p) (0 + p) = Some (tr2, None)"
         "creates_ao tr2 = 0" "pages_ao tr2 = [1 + of_nat p]" by blast
  have "list_loop (p + Suc f) env c certPEM 1 0 =
                  (case list_loop (Suc f) env c certPEM (1 + of_nat p) (0 + p) of
                     None \<Rightarrow> None
                   | Some (tr, res) \<Rightarrow> Some (pre1 @ tr, res))"
    using pre1 by blast
  then have loop: "list_loop fuel env c certPEM 1 0 = Some (pre1 @ tr2, None)"
    unfolding fuel tr2(1) by simp
  moreover have "creates_ao (pre1 @ tr2) = 0"
    using pre1 tr2(2) by (simp add: creates_simps)
  moreover have "pages_ao (pre1 @ tr2) = map (\<lambda>i. 1 + of_nat i) [0..<Suc p]"
    using pre1 tr2(3) by (simp add: pages_simps)
  ultimately show ?thesis by blast
qed

text \<open>
  Claim C7. \<^emph>\<open>ctcccloudelb\<close>: when the list call answers with records none of which
  equals the uploaded certificate, \<open>Upload\<close> makes after the list call one create call,
  with a client token, the region, the name \<open>certimate-\<close> followed by the decimal Unix
  time in milliseconds, and the uploaded certificate and key. \<^emph>\<open>ctcccloudao\<close>: when
  the pages before page \<open>p + 1\<close> are full pages whose records are all passed over, page
  \<open>p + 1\<close> ends the enumeration without a match, and the context is not done,
  \<open>Upload\<close> fetches the pages \<open>1, \<dots>, p + 1\<close> and then makes one create call, the
  only one of the run, with that name and the uploaded certificate and key. In both,
  whatever the create call answers, the call is made; when it answers with the new
  object, \<open>Upload\<close> returns the new id with that name, when it answers with an error,
  that error wrapped, and when the answer has no object, the run ends in the
  dereference of nil.
\<close>

theorem Upload_creates_when_no_match:
  "(ListCertificates envb (RegionId config) = Inr records
      \<and> list_all (\<lambda>x. \<not> EqualCertificatesFromPEM_elb envb certPEM (Certificate x)) records
    \<longrightarrow> Upload_elb envb config certPEM privkeyPEM
          = ([ListCertificates_ev (RegionId config),
              CreateCertificate_ev
                \<lparr> ClientToken = generateClientToken envb, RegionID = RegionId config,
                  Name_new = ''certimate-'' @ decimal_int (UnixMilli_elb envb),
                  Description = ''upload from certimate'', Type = ''Server'',
                  Certificate_new = certPEM, PrivateKey_new = privkeyPEM \<rparr>],
             (case CreateCertificate envb
                     \<lparr> ClientToken = generateClientToken envb, RegionID = RegionId config,
                       Name_new = ''certimate-'' @ decimal_int (UnixMilli_elb envb),
                       Description = ''upload from certimate'', Type = ''Server'',
                       Certificate_new = certPEM, PrivateKey_new = privkeyPEM \<rparr> of
                Inl err \<Rightarrow> Inl (RequestFailed ''elb.CreateCertificate'' err)
              | Inr resp \<Rightarrow>
                  (case ReturnObj_new resp of
                     None \<Rightarrow> Inl NilDereference
                   | Some newId \<Rightarrow>
                       Inr \<lparr> CertId = newId,
                             CertName = ''certimate-'' @ decimal_int (UnixMilli_elb envb) \<rparr>))))
   \<and> (ParseCertificateFromPEM env certPEM = Inr c
      \<and> (\<forall>i<p. \<not> ctxDone_ao env i \<and> full_page_without_match env c certPEM (1 + of_nat i))
      \<and> \<not> ctxDone_ao env p
      \<and> last_page_without_match env c certPEM (1 + of_nat p)
      \<and> p < fuel
    \<longrightarrow> (\<exists>tr0. Upload_ao fuel env certPEM privkeyPEM
                  = Some (tr0 @ [CreateCert_ev
                                  \<lparr> Name_req = ''certimate-'' @ decimal_int (UnixMilli_ao env),
                                    Certs_req = certPEM, Key_req = privkeyPEM \<rparr>],
                          (case CreateCert env
                                  \<lparr> Name_req = ''certimate-'' @ decimal_int (UnixMilli_ao env),
                                    Certs_req = certPEM, Key_req = privkeyPEM \<rparr> of
                             Inl err \<Rightarrow> Inl (RequestFailed ''ao.CreateCert'' err)
                           | Inr resp \<Rightarrow>
                               (case ReturnObj_create resp of
                                  None \<Rightarrow> Inl NilDereference
                                | Some obj \<Rightarrow>
                                    Inr \<lparr> CertId = decimal_int (Id_created obj),
                                          CertName = ''certimate-''
                                                     @ decimal_int (UnixMilli_ao env) \<rparr>)))
               \<and> creates_ao tr0 = 0
               \<and> creates_ao (tr0 @ [CreateCert_ev
                                  \<lparr> Name_req = ''certimate-'' @ decimal_int (UnixMilli_ao env),
                                    Certs_req = certPEM, Key_req = privkeyPEM \<rparr>]) = 1
               \<and> pages_ao tr0 = map (\<lambda>i. 1 + of_nat i) [0..<Suc p]))"
proof (intro conjI impI)
  assume a: "ListCertificates envb (RegionId config) = Inr records
      \<and> list_all (\<lambda>x. \<not> EqualCertificatesFromPEM_elb envb certPEM (Certificate x)) records"
  then have "find (\<lambda>x. EqualCertificatesFromPEM_elb envb certPEM (Certificate x)) records = None"
    using find_none [of "\<lambda>x. EqualCertificatesFromPEM_elb envb certPEM (Certificate x)" records]
    by simp
  with a show "Upload_elb envb config certPEM privkeyPEM
          = ([ListCertificates_ev (RegionId config),
              CreateCertificate_ev
                \<lparr> ClientToken = generateClientToken envb, RegionID = RegionId config,
                  Name_new = ''certimate-'' @ decimal_int (UnixMilli_elb envb),
                  Description = ''upload from certimate'', Type = ''Server'',
                  Certificate_new = certPEM, PrivateKey_new = privkeyPEM \<rparr>],
             (case CreateCertificate envb
                     \<lparr> ClientToken = generateClientToken envb, RegionID = RegionId config,
                       Name_new = ''certimate-'' @ decimal_int (UnixMilli_elb envb),
                       Description = ''upload from certimate'', Type = ''Server'',
                       Certificate_new = certPEM, PrivateKey_new = privkeyPEM \<rparr> of
                Inl err \<Rightarrow> Inl (RequestFailed ''elb.CreateCertificate'' err)
              | Inr resp \<Rightarrow>
                  (case ReturnObj_new resp of
                     None \<Rightarrow> Inl NilDereference
                   | Some newId \<Rightarrow>
                       Inr \<lparr> CertId = newId,
                             CertName = ''certimate-'' @ decimal_int (UnixMilli_elb envb) \<rparr>)))"
    by (simp add: Upload_elb_def create_elb_def new_cert_name_def Let_def
             split: sum.splits option.splits)
next
  assume a: "ParseCertificateFromPEM env certPEM = Inr c
      \<and> (\<forall>i<p. \<not> ctxDone_ao env i \<and> full_page_without_match env c certPEM (1 + of_nat i))
      \<and> \<not> ctxDone_ao env p
      \<and> last_page_without_match env c certPEM (1 + of_nat p)
      \<and> p < fuel"
  then have f2: "\<forall>i<p. \<not> ctxDone_ao env i \<and> full_page_without_match env c certPEM (1 + of_nat i)"
    and f3: "\<not> ctxDone_ao env p"
    and f4: "last_page_without_match env c certPEM (1 + of_nat p)" and f5: "p < fuel"
    by simp_all
  from list_loop_exhausted [OF f2 f3 f4 f5] obtain tr0 where
    brk: "list_loop fuel env c certPEM 1 0 = Some (tr0, None)"
    and q: "creates_ao tr0 = 0" "pages_ao tr0 = map (\<lambda>i. 1 + of_nat i) [0..<Suc p]" by blast
  let ?req = "\<lparr> Name_req = ''certimate-'' @ decimal_int (UnixMilli_ao env),
                Certs_req = certPEM, Key_req = privkeyPEM \<rparr>"
  have "Upload_ao fuel env certPEM privkeyPEM
          = Some (tr0 @ [CreateCert_ev ?req],
                  (case CreateCert env ?req of
                     Inl err \<Rightarrow> Inl (RequestFailed ''ao.CreateCert'' err)
                   | Inr resp \<Rightarrow>
                       (case ReturnObj_create resp of
                          None \<Rightarrow> Inl NilDereference
                        | Some obj \<Rightarrow>
                            Inr \<lparr> CertId = decimal_int (Id_created obj),
                                  CertName = ''certimate-''
                                             @ decimal_int (UnixMilli_ao env) \<rparr>)))"
    using a brk
    by (simp add: Upload_ao_def create_ao_def new_cert_name_def Let_def
             split: sum.splits option.splits)
  moreover have "creates_ao (tr0 @ [CreateCert_ev ?req]) = 1"
    using q(1) by (simp add: creates_simps)
  ultimately show "\<exists>tr0. Upload_ao fuel env certPEM privkeyPEM
                  = Some (tr0 @ [CreateCert_ev ?req],
                          (case CreateCert env ?req of
                             Inl err \<Rightarrow> Inl (RequestFailed ''ao.CreateCert'' err)
                           | Inr resp \<Rightarrow>
                               (case ReturnObj_create resp of
                                  None \<Rightarrow> Inl NilDereference
                                | Some obj \<Rightarrow>
                                    Inr \<lparr> CertId = decimal_int (Id_created obj),
                                          CertName = ''certimate-''
                                                     @ decimal_int (UnixMilli_ao env) \<rparr>)))
               \<and> creates_ao tr0 = 0
               \<and> creates_ao (tr0 @ [CreateCert_ev ?req]) = 1
               \<and> pages_ao tr0 = map (\<lambda>i. 1 + of_nat i) [0..<Suc p]"
    using q by blast
qed


text \<open>
  Claim C9. A record that passes the four metadata checks and whose \<open>QueryCert\<close> call
  succeeds with a nil \<open>ReturnObj\<close> or a nil \<open>Result\<close> skips the comparison of the
  contents, is announced as an existing certificate, and ends in the dereference of the
  nil detail. When it is the first record that is not passed over, \<open>Upload\<close> ends in
  that panic, not in a returned error of its own, and has created nothing.
\<close>

theorem nil_detail_is_dereferenced:
  assumes "EqualFold env (Subject_CommonName c) (CN r)" and "DNSNames c = SANs r"
      and "NotBefore c = time_Unix (IssueTime r) 0" and "NotAfter c = time_Unix (ExpiresTime r) 0"
      and "QueryCert env (Id_rec r) = Inr q"
      and "ReturnObj_query q = None \<or> (\<exists>obj. ReturnObj_query q = Some obj \<and> Result obj = None)"
      and "ParseCertificateFromPEM env certPEM = Inr c"
      and "\<forall>i<p. \<not> ctxDone_ao env i \<and> full_page_without_match env c certPEM (1 + of_nat i)"
      and "\<not> ctxDone_ao env p"
      and "ListCerts env (page_req (1 + of_nat p))
             = Inr \<lparr> ReturnObj_list = Some \<lparr> Results = pre @ r # post \<rparr> \<rparr>"
      and "list_all (passed_over env c certPEM) pre"
      and "p < fuel"
  shows "check_record env c certPEM r
           = ([QueryCert_ev (Id_rec r), CertificateExists_ev], Return (Inl NilDereference))
       \<and> (\<exists>tr. Upload_ao fuel env certPEM privkeyPEM = Some (tr, Inl NilDereference)
                \<and> creates_ao tr = 0)"
proof -
  from assms(6) have nil: "detail_of q = None"
    by (auto simp: detail_of_def)
  from check_record_match [OF assms(1-5), of certPEM] nil
  have cr: "check_record env c certPEM r
           = ([QueryCert_ev (Id_rec r), CertificateExists_ev], Return (Inl NilDereference))"
    by simp
  then have f8: "snd (check_record env c certPEM r) = Return (Inl NilDereference)" by simp
  have f5: "ReturnObj_list \<lparr> ReturnObj_list = Some \<lparr> Results = pre @ r # post \<rparr> \<rparr>
                   = Some \<lparr> Results = pre @ r # post \<rparr>"
   and f6: "Results \<lparr> Results = pre @ r # post \<rparr> = pre @ r # post"
    by simp_all
  from Upload_ao_first_return [OF assms(7-10) f5 f6 assms(11) f8 assms(12), of privkeyPEM] cr
  show ?thesis by blast
qed

lemma demo_passed_over_other:
  "passed_over (demo_ao_env pages details) demo_cert pem (listed i ''other.example'' sans)"
  using fold_examples(3)
  by (simp add: passed_over_def check_record_def demo_cert_def listed_def demo_ao_env_def)

lemma demo_full_first_page:
  "full_page_without_match (demo_ao_env two_pages details) demo_cert pem 1"
  using demo_passed_over_other
  by (simp add: full_page_without_match_def demo_ao_env_def two_pages_def page_req_def
        list_all_iff)

lemma demo_passed_over_swapped:
  "passed_over (demo_ao_env pages details) demo_cert pem
     (listed i ''example.com'' [''www.example.com'', ''example.com''])"
  using fold_examples(2)
  by (simp add: passed_over_def check_record_def demo_cert_def listed_def demo_ao_env_def)

text \<open>
  Witness for C3: of three listed records the second and the third equal the upload, and
  the second is returned; of the two pages the first is full and without a match, and on
  the second the record 2 has the SAN list in another order, the record 3 matches and
  is returned, and the record 4, which would match too, is never looked at. Neither run
  creates a certificate, nor does the run on a single page with the one matching record.
\<close>

theorem Upload_returns_first_match_witness:
  "Upload_elb (demo_elb_env [\<lparr> ID = ''a'', Name = ''n-a'', Certificate = ''pem-0'' \<rparr>,
                             \<lparr> ID = ''b'', Name = ''n-b'', Certificate = ''pem-1'' \<rparr>,
                             \<lparr> ID = ''c'', Name = ''n-c'', Certificate = ''pem-1'' \<rparr>])
      demo_elb_config ''pem-1'' ''key-1''
     = ([ListCertificates_ev ''region-1'', CertificateExists_elb_ev],
        Inr \<lparr> CertId = ''b'', CertName = ''n-b'' \<rparr>)
   \<and> (\<exists>tr. Upload_ao 2 (demo_ao_env two_pages (\<lambda>i. detail i ''existing'' ''pem-1''))
              ''pem-1'' ''key-1''
            = Some (tr, Inr \<lparr> CertId = ''3'', CertName = ''existing'' \<rparr>)
          \<and> creates_ao tr = 0 \<and> pages_ao tr = [1, 2])
   \<and> (\<forall>req. CreateCertificate_ev req
          \<notin> set (fst (Upload_elb
                 (demo_elb_env [\<lparr> ID = ''a'', Name = ''n-a'', Certificate = ''pem-0'' \<rparr>,
                                \<lparr> ID = ''b'', Name = ''n-b'', Certificate = ''pem-1'' \<rparr>,
                                \<lparr> ID = ''c'', Name = ''n-c'', Certificate = ''pem-1'' \<rparr>])
                 demo_elb_config ''pem-1'' ''key-1'')))
   \<and> (\<exists>tr. Upload_ao 1 (demo_ao_env (\<lambda>pg. [listed 3 ''EXAMPLE.com''
                                                 [''example.com'', ''www.example.com'']])
                                     (\<lambda>i. detail i ''existing'' ''pem-1''))
               ''pem-1'' ''key-1''
            = Some (tr, Inr \<lparr> CertId = ''3'', CertName = ''existing'' \<rparr>)
          \<and> creates_ao tr = 0)"
proof -
  let ?envb = "demo_elb_env [\<lparr> ID = ''a'', Name = ''n-a'', Certificate = ''pem-0'' \<rparr>,
                             \<lparr> ID = ''b'', Name = ''n-b'', Certificate = ''pem-1'' \<rparr>,
                             \<lparr> ID = ''c'', Name = ''n-c'', Certificate = ''pem-1'' \<rparr>]"
  let ?env = "demo_ao_env two_pages (\<lambda>i. detail i ''existing'' ''pem-1'')"
  let ?r = "listed 3 ''EXAMPLE.com'' [''example.com'', ''www.example.com'']"
  let ?d = "\<lparr> Id_detail = 3, Name_detail = ''existing'', Certs = ''pem-1'' \<rparr>"
  have elb: "ListCertificates ?envb (RegionId demo_elb_config)
        = Inr ([\<lparr> ID = ''a'', Name = ''n-a'', Certificate = ''pem-0'' \<rparr>]
               @ \<lparr> ID = ''b'', Name = ''n-b'', Certificate = ''pem-1'' \<rparr>
               # [\<lparr> ID = ''c'', Name = ''n-c'', Certificate = ''pem-1'' \<rparr>])
      \<and> list_all (\<lambda>x. \<not> EqualCertificatesFromPEM_elb ?envb ''pem-1'' (Certificate x))
           [\<lparr> ID = ''a'', Name = ''n-a'', Certificate = ''pem-0'' \<rparr>]
      \<and> EqualCertificatesFromPEM_elb ?envb ''pem-1''
           (Certificate \<lparr> ID = ''b'', Name = ''n-b'', Certificate = ''pem-1'' \<rparr>)"
    by (simp add: demo_elb_env_def)
  have ao: "ParseCertificateFromPEM ?env ''pem-1'' = Inr demo_cert
      \<and> (\<forall>i<1. \<not> ctxDone_ao ?env i \<and> full_page_without_match ?env demo_cert ''pem-1'' (1 + of_nat i))
      \<and> \<not> ctxDone_ao ?env 1
      \<and> ListCerts ?env (page_req (1 + of_nat 1))
          = Inr \<lparr> ReturnObj_list = Some \<lparr> Results =
                [listed 2 ''example.com'' [''www.example.com'', ''example.com'']] @ ?r
                # [listed 4 ''example.com'' [''example.com'', ''www.example.com'']] \<rparr> \<rparr>
      \<and> list_all (passed_over ?env demo_cert ''pem-1'')
            [listed 2 ''example.com'' [''www.example.com'', ''example.com'']]
      \<and> EqualFold ?env (Subject_CommonName demo_cert) (CN ?r) \<and> DNSNames demo_cert = SANs ?r
      \<and> NotBefore demo_cert = time_Unix (IssueTime ?r) 0
      \<and> NotAfter demo_cert = time_Unix (ExpiresTime ?r) 0
      \<and> QueryCert ?env (Id_rec ?r) = Inr \<lparr> ReturnObj_query = Some \<lparr> Result = Some ?d \<rparr> \<rparr>
      \<and> EqualCertificatesFromPEM ?env ''pem-1'' (Certs ?d)
      \<and> 1 < (2::nat)"
    using demo_full_first_page demo_passed_over_swapped fold_examples(1)
    by (simp add: demo_ao_env_def two_pages_def page_req_def demo_cert_def listed_def detail_def)
  note inst = Upload_returns_first_match [where envb = ?envb and config = demo_elb_config
         and preb = "[\<lparr> ID = ''a'', Name = ''n-a'', Certificate = ''pem-0'' \<rparr>]"
         and rb = "\<lparr> ID = ''b'', Name = ''n-b'', Certificate = ''pem-1'' \<rparr>"
         and postb = "[\<lparr> ID = ''c'', Name = ''n-c'', Certificate = ''pem-1'' \<rparr>]"
         and certPEM = "''pem-1''" and privkeyPEM = "''key-1''" and env = ?env
         and c = demo_cert and p = 1
         and pre = "[listed 2 ''example.com'' [''www.example.com'', ''example.com'']]"
         and r = ?r
         and post = "[listed 4 ''example.com'' [''example.com'', ''www.example.com'']]"
         and d = ?d and fuel = 2]
  from inst [THEN conjunct1] inst [THEN conjunct2, THEN conjunct2, THEN conjunct2] elb ao
  have first: "Upload_elb ?envb demo_elb_config ''pem-1'' ''key-1''
     = ([ListCertificates_ev ''region-1'', CertificateExists_elb_ev],
        Inr \<lparr> CertId = ''b'', CertName = ''n-b'' \<rparr>)
   \<and> (\<exists>tr. Upload_ao 2 ?env ''pem-1'' ''key-1''
            = Some (tr, Inr \<lparr> CertId = ''3'', CertName = ''existing'' \<rparr>)
          \<and> creates_ao tr = 0 \<and> pages_ao tr = [1, 2])"
    by (simp add: demo_elb_config_def decimal_int_def decimal.simps digit_char_simps
          upt_conv_Cons del: upt_Suc)
  have listed_b: "ListCertificates ?envb (RegionId demo_elb_config)
        = Inr [\<lparr> ID = ''a'', Name = ''n-a'', Certificate = ''pem-0'' \<rparr>,
               \<lparr> ID = ''b'', Name = ''n-b'', Certificate = ''pem-1'' \<rparr>,
               \<lparr> ID = ''c'', Name = ''n-c'', Certificate = ''pem-1'' \<rparr>]
      \<and> \<lparr> ID = ''b'', Name = ''n-b'', Certificate = ''pem-1'' \<rparr>
          \<in> set [\<lparr> ID = ''a'', Name = ''n-a'', Certificate = ''pem-0'' \<rparr>,
                 \<lparr> ID = ''b'', Name = ''n-b'', Certificate = ''pem-1'' \<rparr>,
                 \<lparr> ID = ''c'', Name = ''n-c'', Certificate = ''pem-1'' \<rparr>]
      \<and> EqualCertificatesFromPEM_elb ?envb ''pem-1''
           (Certificate \<lparr> ID = ''b'', Name = ''n-b'', Certificate = ''pem-1'' \<rparr>)"
    by (simp add: demo_elb_env_def)
  have second: "CreateCertificate_ev req
          \<notin> set (fst (Upload_elb ?envb demo_elb_config ''pem-1'' ''key-1''))" for req
    using Upload_returns_first_match [where envb = ?envb and config = demo_elb_config
         and records = "[\<lparr> ID = ''a'', Name = ''n-a'', Certificate = ''pem-0'' \<rparr>,
                         \<lparr> ID = ''b'', Name = ''n-b'', Certificate = ''pem-1'' \<rparr>,
                         \<lparr> ID = ''c'', Name = ''n-c'', Certificate = ''pem-1'' \<rparr>]"
         and xb = "\<lparr> ID = ''b'', Name = ''n-b'', Certificate = ''pem-1'' \<rparr>"
         and certPEM = "''pem-1''" and privkeyPEM = "''key-1''" and reqb = req,
         THEN conjunct2, THEN conjunct1] listed_b
    by blast
  let ?env1 = "demo_ao_env (\<lambda>pg. [?r]) (\<lambda>i. detail i ''existing'' ''pem-1'')"
  have not_passed: "\<not> passed_over ?env1 demo_cert ''pem-1'' ?r"
    using fold_examples(1)
    by (simp add: passed_over_def check_record_def demo_cert_def listed_def demo_ao_env_def
          detail_def detail_of_def)
  have run: "Upload_ao 1 ?env1 ''pem-1'' ''key-1''
               = Some ([ListCerts_ev (page_req 1), QueryCert_ev 3, CertificateExists_ev],
                       Inr \<lparr> CertId = ''3'', CertName = ''existing'' \<rparr>)"
    using fold_examples(1)
    by (simp add: Upload_ao_def check_record_def demo_cert_def listed_def demo_ao_env_def
          detail_def detail_of_def page_req_def Let_def decimal_int_def decimal.simps
          digit_char_simps)
  have fetched: "Upload_ao 1 ?env1 ''pem-1'' ''key-1''
               = Some ([ListCerts_ev (page_req 1), QueryCert_ev 3, CertificateExists_ev],
                       Inr \<lparr> CertId = ''3'', CertName = ''existing'' \<rparr>)
      \<and> ParseCertificateFromPEM ?env1 ''pem-1'' = Inr demo_cert
      \<and> 1 \<in> set (pages_ao [ListCerts_ev (page_req 1), QueryCert_ev 3, CertificateExists_ev])
      \<and> ListCerts ?env1 (page_req 1) = Inr \<lparr> ReturnObj_list = Some \<lparr> Results = [?r] \<rparr> \<rparr>
      \<and> ?r \<in> set (Results \<lparr> Results = [?r] \<rparr>) \<and> \<not> passed_over ?env1 demo_cert ''pem-1'' ?r"
    using run not_passed
    by (simp add: pages_simps page_req_def) (simp add: demo_ao_env_def)
  have third: "creates_ao [ListCerts_ev (page_req 1), QueryCert_ev 3, CertificateExists_ev] = 0"
    using Upload_returns_first_match [where fuel = 1 and env = ?env1 and certPEM = "''pem-1''"
         and privkeyPEM = "''key-1''" and c = demo_cert and pg = 1
         and tr' = "[ListCerts_ev (page_req 1), QueryCert_ev 3, CertificateExists_ev]"
         and res' = "Inr \<lparr> CertId = ''3'', CertName = ''existing'' \<rparr>"
         and obj = "\<lparr> Results = [?r] \<rparr>" and x = ?r,
         THEN conjunct2, THEN conjunct2, THEN conjunct1] fetched
    by blast
  from first second third run show ?thesis by simp
qed

text \<open>
  Witness for C4: the same two SANs in the other order are a difference, found without
  a vendor call.
\<close>

theorem check_record_prefilter_witness:
  "DNSNames demo_cert
     \<noteq> SANs (listed 2 ''example.com'' [''www.example.com'', ''example.com''])
   \<and> fst (check_record (demo_ao_env two_pages (\<lambda>i. detail i ''existing'' ''pem-1'')) demo_cert
            ''pem-1'' (listed 2 ''example.com'' [''www.example.com'', ''example.com''])) = []
   \<and> snd (check_record (demo_ao_env two_pages (\<lambda>i. detail i ''existing'' ''pem-1'')) demo_cert
            ''pem-1'' (listed 2 ''example.com'' [''www.example.com'', ''example.com'']))
       = Continue SANs_differ"
  using check_record_prefilter [of "demo_ao_env two_pages (\<lambda>i. detail i ''existing'' ''pem-1'')"
          demo_cert "''pem-1''" "listed 2 ''example.com'' [''www.example.com'', ''example.com'']"]
        fold_examples(2)
  by (simp add: demo_cert_def listed_def demo_ao_env_def)

lemma demo_unmatched_first_page:
  "full_page_without_match (demo_ao_env unmatched_pages details) demo_cert pem 1"
  using demo_passed_over_other
  by (simp add: full_page_without_match_def demo_ao_env_def unmatched_pages_def page_req_def
        list_all_iff)

lemma demo_passed_over_older:
  "passed_over (demo_ao_env pages (\<lambda>i. detail i ''older'' ''pem-0'')) demo_cert ''pem-1''
     (listed 5 ''example.com'' [''example.com'', ''www.example.com''])"
  using fold_examples(2)
  by (simp add: passed_over_def check_record_def demo_cert_def listed_def demo_ao_env_def
        detail_def detail_of_def)

lemma demo_unmatched_last_page:
  "last_page_without_match (demo_ao_env unmatched_pages (\<lambda>i. detail i ''older'' ''pem-0''))
     demo_cert ''pem-1'' 2"
proof -
  have "ListCerts (demo_ao_env unmatched_pages (\<lambda>i. detail i ''older'' ''pem-0'')) (page_req 2)
          = Inr \<lparr> ReturnObj_list = Some \<lparr> Results =
               [listed 2 ''example.com'' [''www.example.com'', ''example.com''],
                listed 5 ''example.com'' [''example.com'', ''www.example.com'']] \<rparr> \<rparr>"
    by (simp add: demo_ao_env_def unmatched_pages_def page_req_def)
  with demo_passed_over_swapped demo_passed_over_older show ?thesis
    by (simp add: last_page_without_match_def)
qed

text \<open>
  Witness for C7: one listed certificate that is another one; and the inventory of two
  pages without a match, at the millisecond 1700000000123.
\<close>

theorem Upload_creates_when_no_match_witness:
  "Upload_elb (demo_elb_env [\<lparr> ID = ''a'', Name = ''n-a'', Certificate = ''pem-0'' \<rparr>])
      demo_elb_config ''pem-1'' ''key-1''
     = ([ListCertificates_ev ''region-1'',
         CreateCertificate_ev
           \<lparr> ClientToken = ''2f1e4c9a-0000-4000-8000-000000000001'', RegionID = ''region-1'',
             Name_new = ''certimate-1700000000123'',
             Description = ''upload from certimate'', Type = ''Server'',
             Certificate_new = ''pem-1'', PrivateKey_new = ''key-1'' \<rparr>],
        Inr \<lparr> CertId = ''cert-new'', CertName = ''certimate-1700000000123'' \<rparr>)
   \<and> (\<exists>tr0. Upload_ao 2 (demo_ao_env unmatched_pages (\<lambda>i. detail i ''older'' ''pem-0''))
                ''pem-1'' ''key-1''
             = Some (tr0 @ [CreateCert_ev \<lparr> Name_req = ''certimate-1700000000123'',
                                            Certs_req = ''pem-1'', Key_req = ''key-1'' \<rparr>],
                     Inr \<lparr> CertId = ''42'', CertName = ''certimate-1700000000123'' \<rparr>)
           \<and> creates_ao tr0 = 0 \<and> pages_ao tr0 = [1, 2])"
proof -
  let ?envb = "demo_elb_env [\<lparr> ID = ''a'', Name = ''n-a'', Certificate = ''pem-0'' \<rparr>]"
  let ?env = "demo_ao_env unmatched_pages (\<lambda>i. detail i ''older'' ''pem-0'')"
  have name: "decimal_int 1700000000123 = ''1700000000123''" "decimal_int 42 = ''42''"
    by (simp_all add: decimal_int_def decimal.simps digit_char_simps)
  have elb: "ListCertificates ?envb (RegionId demo_elb_config)
               = Inr [\<lparr> ID = ''a'', Name = ''n-a'', Certificate = ''pem-0'' \<rparr>]
      \<and> list_all (\<lambda>x. \<not> EqualCertificatesFromPEM_elb ?envb ''pem-1'' (Certificate x))
           [\<lparr> ID = ''a'', Name = ''n-a'', Certificate = ''pem-0'' \<rparr>]"
    by (simp add: demo_elb_env_def)
  have ao: "ParseCertificateFromPEM ?env ''pem-1'' = Inr demo_cert
      \<and> (\<forall>i<1. \<not> ctxDone_ao ?env i
                \<and> full_page_without_match ?env demo_cert ''pem-1'' (1 + of_nat i))
      \<and> \<not> ctxDone_ao ?env 1
      \<and> last_page_without_match ?env demo_cert ''pem-1'' (1 + of_nat 1)
      \<and> 1 < (2::nat)"
    using demo_unmatched_first_page demo_unmatched_last_page
    by (simp add: demo_ao_env_def)
  note inst = Upload_creates_when_no_match [where envb = ?envb and config = demo_elb_config
         and records = "[\<lparr> ID = ''a'', Name = ''n-a'', Certificate = ''pem-0'' \<rparr>]"
         and certPEM = "''pem-1''" and privkeyPEM = "''key-1''" and env = ?env
         and c = demo_cert and p = 1 and fuel = 2]
  from inst [THEN conjunct1, THEN mp, OF elb]
  have first: "Upload_elb ?envb demo_elb_config ''pem-1'' ''key-1''
     = ([ListCertificates_ev ''region-1'',
         CreateCertificate_ev
           \<lparr> ClientToken = ''2f1e4c9a-0000-4000-8000-000000000001'', RegionID = ''region-1'',
             Name_new = ''certimate-1700000000123'',
             Description = ''upload from certimate'', Type = ''Server'',
             Certificate_new = ''pem-1'', PrivateKey_new = ''key-1'' \<rparr>],
        Inr \<lparr> CertId = ''cert-new'', CertName = ''certimate-1700000000123'' \<rparr>)"
    by (simp add: demo_elb_config_def demo_elb_env_def name)
  from inst [THEN conjunct2, THEN mp, OF ao]
  have second: "\<exists>tr0. Upload_ao 2 ?env ''pem-1'' ''key-1''
             = Some (tr0 @ [CreateCert_ev \<lparr> Name_req = ''certimate-1700000000123'',
                                            Certs_req = ''pem-1'', Key_req = ''key-1'' \<rparr>],
                     Inr \<lparr> CertId = ''42'', CertName = ''certimate-1700000000123'' \<rparr>)
           \<and> creates_ao tr0 = 0 \<and> pages_ao tr0 = [1, 2]"
    by (auto simp add: demo_ao_env_def name upt_conv_Cons simp del: upt_Suc)
  from first second show ?thesis by simp
qed

text \<open>Witness for C9: the vendor answers every detail query without a \<open>ReturnObj\<close>.\<close>

theorem nil_detail_is_dereferenced_witness:
  "check_record (demo_ao_env two_pages (\<lambda>i. Inr \<lparr> ReturnObj_query = None \<rparr>)) demo_cert ''pem-1''
     (listed 3 ''EXAMPLE.com'' [''example.com'', ''www.example.com''])
     = ([QueryCert_ev 3, CertificateExists_ev], Return (Inl NilDereference))
   \<and> (\<exists>tr. Upload_ao 2 (demo_ao_env two_pages (\<lambda>i. Inr \<lparr> ReturnObj_query = None \<rparr>))
              ''pem-1'' ''key-1''
            = Some (tr, Inl NilDereference) \<and> creates_ao tr = 0)"
proof -
  let ?env = "demo_ao_env two_pages (\<lambda>i. Inr \<lparr> ReturnObj_query = None \<rparr>)"
  let ?r = "listed 3 ''EXAMPLE.com'' [''example.com'', ''www.example.com'']"
  have h1: "EqualFold ?env (Subject_CommonName demo_cert) (CN ?r)"
    using fold_examples(1) by (simp add: demo_cert_def listed_def demo_ao_env_def)
  have h2: "DNSNames demo_cert = SANs ?r"
   and h3: "NotBefore demo_cert = time_Unix (IssueTime ?r) 0"
   and h4: "NotAfter demo_cert = time_Unix (ExpiresTime ?r) 0"
    by (simp_all add: demo_cert_def listed_def)
  have h5: "QueryCert ?env (Id_rec ?r) = Inr \<lparr> ReturnObj_query = None \<rparr>"
    by (simp add: demo_ao_env_def)
  have h6: "ReturnObj_query \<lparr> ReturnObj_query = None \<rparr> = None
            \<or> (\<exists>obj. ReturnObj_query \<lparr> ReturnObj_query = None \<rparr> = Some obj \<and> Result obj = None)"
    by simp
  have h7: "ParseCertificateFromPEM ?env ''pem-1'' = Inr demo_cert"
    by (simp add: demo_ao_env_def)
  have h8: "\<forall>i<1. \<not> ctxDone_ao ?env i
               \<and> full_page_without_match ?env demo_cert ''pem-1'' (1 + of_nat i)"
    using demo_full_first_page by (simp add: demo_ao_env_def)
  have h9: "\<not> ctxDone_ao ?env 1" by (simp add: demo_ao_env_def)
  have h10: "ListCerts ?env (page_req (1 + of_nat 1))
          = Inr \<lparr> ReturnObj_list = Some \<lparr> Results =
                [listed 2 ''example.com'' [''www.example.com'', ''example.com'']] @ ?r
                # [listed 4 ''example.com'' [''example.com'', ''www.example.com'']] \<rparr> \<rparr>"
    by (simp add: demo_ao_env_def two_pages_def page_req_def)
  have h11: "list_all (passed_over ?env demo_cert ''pem-1'')
            [listed 2 ''example.com'' [''www.example.com'', ''example.com'']]"
    using demo_passed_over_swapped by simp
  have h12: "1 < (2::nat)" by simp
  from nil_detail_is_dereferenced [OF h1 h2 h3 h4 h5 h6 h7 h8 h9 h10 h11 h12, of "''key-1''"]
  show ?thesis by (simp add: listed_def)
qed

end
